theory Spec2Isabelle
  imports Main "HOL-Library.Sublist"
begin

section \<open>Python values of the inventory programs\<close>

text \<open>
  The repository holds two programs: the first keeps its products in a text file, one
  line \<^verbatim>\<open>id|nombre|cantidad|precio\<close> per product, the second (the file whose name
  ends in \<^verbatim>\<open>1.py\<close>) keeps them in a JSON file. Both have the classes \<^verbatim>\<open>Producto\<close>
  and \<^verbatim>\<open>Inventario\<close>. Their methods are embedded below under the names of the source;
  the methods of the second program carry the suffix \<open>1\<close>.

  A Python \<^verbatim>\<open>str\<close> is the list of its code points, each a \<^typ>\<open>nat\<close>; \<open>str ''abc''\<close>
  writes a text of ASCII characters. A Python \<^verbatim>\<open>int\<close> is an \<^typ>\<open>int\<close>. A Python
  \<^verbatim>\<open>float\<close> is a value of the type parameter \<open>'f\<close>: nothing in the programs computes
  with the price, they only store it, print it and read it back.
\<close>

type_synonym pystr = "nat list"

abbreviation (input) str :: "string \<Rightarrow> pystr" where
  "str s \<equiv> map of_char s"

abbreviation (input) bar :: nat where
  "bar \<equiv> 124"

abbreviation (input) line_feed :: nat where
  "line_feed \<equiv> 10"

abbreviation (input) carriage_return :: nat where
  "carriage_return \<equiv> 13"

text \<open>The exception classes that the programs name or that their statements raise.\<close>

datatype exn =
    FileNotFoundError
  | PermissionError
  | OSError
  | UnicodeError
  | JSONDecodeError
  | ValueError
  | KeyError
  | TypeError
  | AttributeError

text \<open>
  \<^verbatim>\<open>IOError\<close> is \<^verbatim>\<open>OSError\<close> in Python 3, and \<^verbatim>\<open>FileNotFoundError\<close> and
  \<^verbatim>\<open>PermissionError\<close> are subclasses of it. Every class above derives from
  \<^verbatim>\<open>Exception\<close>.
\<close>

fun is_OSError :: "exn \<Rightarrow> bool" where
  "is_OSError FileNotFoundError = True"
| "is_OSError PermissionError = True"
| "is_OSError OSError = True"
| "is_OSError _ = False"

fun is_Exception :: "exn \<Rightarrow> bool" where
  "is_Exception _ = True"

text \<open>
  The outcome of a statement: it returns, or it raises. \<open>Untyped\<close> is the outcome of
  \<^verbatim>\<open>Producto.from_dict\<close> on a JSON object whose fields are present but hold values of
  other types than the class documents (str, str, int, float): Python goes on with
  such a product, the typed record below has no value for it, and no theorem speaks
  about that outcome.
\<close>

datatype 'a result = Return 'a | Raise exn | Untyped

text \<open>
  \<^verbatim>\<open>Producto\<close>, with the attribute \<^verbatim>\<open>id\<close> under the name of the constructor's
  argument. Python keeps a reference to the product in the dict; the model keeps its
  value. The two agree as long as no product object is changed from outside the store
  after it was added, and the operations below never put one object under two keys.
\<close>

record 'f producto =
  id_producto :: pystr
  nombre :: pystr
  cantidad :: int
  precio :: "'f"

text \<open>
  A \<^verbatim>\<open>dict\<close> keeps its keys in insertion order: an association list with distinct
  keys. Assigning to a key that is present keeps its position, assigning to a new key
  puts it at the end, and \<^verbatim>\<open>del d[k]\<close> takes the entry of the key away.
\<close>

type_synonym ('k, 'v) dict = "('k \<times> 'v) list"

definition dict_get :: "('k, 'v) dict \<Rightarrow> 'k \<Rightarrow> 'v option" where
  "dict_get d k = map_of d k"

definition dict_in :: "'k \<Rightarrow> ('k, 'v) dict \<Rightarrow> bool" where
  "dict_in k d = (dict_get d k \<noteq> None)"

fun dict_set :: "'k \<Rightarrow> 'v \<Rightarrow> ('k, 'v) dict \<Rightarrow> ('k, 'v) dict" where
  "dict_set k v [] = [(k, v)]"
| "dict_set k v ((k', v') # d) =
     (if k' = k then (k, v) # d else (k', v') # dict_set k v d)"

definition dict_del :: "'k \<Rightarrow> ('k, 'v) dict \<Rightarrow> ('k, 'v) dict" where
  "dict_del k d = filter (\<lambda>kv. fst kv \<noteq> k) d"

definition dict_values :: "('k, 'v) dict \<Rightarrow> 'v list" where
  "dict_values d = map snd d"

record 'f inventario =
  productos :: "(pystr, 'f producto) dict"
  archivo :: pystr

section \<open>Text conversions\<close>

text \<open>
  \<^verbatim>\<open>str.strip()\<close> removes the white space at both ends. The white space characters
  (\<^verbatim>\<open>str.isspace\<close>) are the code points 9 to 13, 28 to 32, 133, 160, 5760, 8192 to 8202,
  8232, 8233, 8239, 8287 and 12288.
\<close>

definition is_space :: "nat \<Rightarrow> bool" where
  "is_space c =
     ((9 \<le> c \<and> c \<le> 13) \<or> (28 \<le> c \<and> c \<le> 32) \<or> c = 133 \<or> c = 160 \<or> c = 5760
      \<or> (8192 \<le> c \<and> c \<le> 8202) \<or> c = 8232 \<or> c = 8233 \<or> c = 8239 \<or> c = 8287
      \<or> c = 12288)"

definition py_strip :: "pystr \<Rightarrow> pystr" where
  "py_strip s = rev (dropWhile is_space (rev (dropWhile is_space s)))"

text \<open>\<^verbatim>\<open>s.split(sep)\<close> with a separator of one character: never the empty list.\<close>

fun py_split :: "nat \<Rightarrow> pystr \<Rightarrow> pystr list" where
  "py_split sep [] = [Nil]"
| "py_split sep (c # cs) =
     (if c = sep then [] # py_split sep cs
      else (case py_split sep cs of [] \<Rightarrow> [c # []] | f # fs \<Rightarrow> (c # f) # fs))"

text \<open>\<^verbatim>\<open>str(n)\<close> for an int: decimal digits, with a minus sign when negative.\<close>

definition digit_char :: "nat \<Rightarrow> nat" where
  "digit_char d = 48 + d"

fun str_nat :: "nat \<Rightarrow> pystr" where
  "str_nat n = (if n < 10 then [digit_char n] else str_nat (n div 10) @ [digit_char (n mod 10)])"

declare str_nat.simps [simp del]

definition str_int :: "int \<Rightarrow> pystr" where
  "str_int i = (if i < 0 then 45 # str_nat (nat (- i)) else str_nat (nat i))"

text \<open>
  \<^verbatim>\<open>int(s)\<close> for a str, as CPython reads it. First each character from code point 128
  on is replaced: white space by a blank, a decimal digit of another script by its ASCII
  digit (\<open>dec\<close> gives its value, 0 to 9, from the Unicode database), anything else by a question
  mark. Then the blanks of C (9 to 13 and 32: not 28 to 31) are dropped at both ends; what
  is left is an optional sign and decimal digits, where one underscore may stand between
  two digits. Anything else is a \<^verbatim>\<open>ValueError\<close>, here \<open>None\<close>. (CPython's limit of 4300
  digits on both conversions is left out.)
\<close>

definition is_c_space :: "nat \<Rightarrow> bool" where
  "is_c_space c = ((9 \<le> c \<and> c \<le> 13) \<or> c = 32)"

definition int_char :: "(nat \<Rightarrow> nat option) \<Rightarrow> nat \<Rightarrow> nat" where
  "int_char dec c =
     (if c < 128 then c
      else if is_space c then 32
      else (case dec c of Some d \<Rightarrow> 48 + d | None \<Rightarrow> 63))"

definition is_digit :: "nat \<Rightarrow> bool" where
  "is_digit c = (48 \<le> c \<and> c \<le> 57)"

definition digit_val :: "nat \<Rightarrow> nat" where
  "digit_val c = c - 48"

fun nat_of_digits :: "nat \<Rightarrow> pystr \<Rightarrow> nat option" where
  "nat_of_digits acc [] = Some acc"
| "nat_of_digits acc (c # cs) =
     (if is_digit c then nat_of_digits (10 * acc + digit_val c) cs
      else if c = 95 \<and> cs \<noteq> [] \<and> is_digit (hd cs) then nat_of_digits acc cs
      else None)"

definition int_parse :: "(nat \<Rightarrow> nat option) \<Rightarrow> pystr \<Rightarrow> int option" where
  "int_parse dec s =
     (let t = dropWhile is_c_space (map (int_char dec) s);
          neg = (t \<noteq> [] \<and> hd t = 45);
          u = (if t \<noteq> [] \<and> (hd t = 45 \<or> hd t = 43) then tl t else t);
          body = rev (dropWhile is_c_space (rev u))
      in if body \<noteq> [] \<and> is_digit (hd body)
         then map_option (\<lambda>n. if neg then - int n else int n) (nat_of_digits 0 body)
         else None)"

text \<open>
  JSON documents as \<^verbatim>\<open>json.load\<close> returns them: \<^verbatim>\<open>None\<close>, bool, int, float, str,
  list and dict (with str keys).
\<close>

datatype 'f json =
    JNull
  | JBool bool
  | JInt int
  | JFloat "'f"
  | JStr pystr
  | JArr "'f json list"
  | JObj "(pystr \<times> 'f json) list"

text \<open>
  The interpreter's part, which the repository does not hold, is a parameter of the
  model: \<^verbatim>\<open>str(x)\<close> and \<^verbatim>\<open>float(s)\<close> for a float (\<open>None\<close> is \<^verbatim>\<open>ValueError\<close>), the
  text that \<^verbatim>\<open>json.dump(obj, file, indent=4)\<close> writes and that \<^verbatim>\<open>json.load\<close> reads
  (\<open>None\<close> is \<^verbatim>\<open>json.JSONDecodeError\<close>), and four tables of the Unicode database: the
  lower case of a code point from 256 on (one or more code points), the properties
  Cased and Case_Ignorable, and the value of a decimal digit from code point 128 on.
\<close>

record 'f pylib =
  float_str :: "'f \<Rightarrow> pystr"
  float_parse :: "pystr \<Rightarrow> 'f option"
  json_dumps :: "'f json \<Rightarrow> pystr"
  json_loads :: "pystr \<Rightarrow> 'f json option"
  unicode_lower :: "nat \<Rightarrow> pystr"
  cased :: "nat \<Rightarrow> bool"
  case_ignorable :: "nat \<Rightarrow> bool"
  decimal_digit :: "nat \<Rightarrow> nat option"

section \<open>Strings\<close>

text \<open>
  \<^verbatim>\<open>str.lower\<close>, as CPython computes it. Below code point 256 the capitals are A to Z
  and 192 to 222 without the multiplication sign 215, and their small letters are 32
  further; from 256 on the table of the library gives the lower case, which may be
  longer than one character.
\<close>

definition capital_latin1 :: "nat \<Rightarrow> bool" where
  "capital_latin1 c = ((65 \<le> c \<and> c \<le> 90) \<or> (192 \<le> c \<and> c \<le> 222 \<and> c \<noteq> 215))"

definition small_latin1 :: "nat \<Rightarrow> nat" where
  "small_latin1 c = (if capital_latin1 c then c + 32 else c)"

definition lower_char :: "'f pylib \<Rightarrow> nat \<Rightarrow> pystr" where
  "lower_char L c = (if c < 256 then [small_latin1 c] else unicode_lower L c)"

text \<open>
  The capital sigma (931) is the one character whose lower case depends on its place:
  it becomes the final sigma (962) when, passing over the case-ignorable characters, a
  cased character stands before it and none after it, and the sigma 963 otherwise.
  \<open>prev\<close> holds the characters before it, the nearest first, and \<open>rest\<close> those after it.
\<close>

definition final_sigma :: "'f pylib \<Rightarrow> pystr \<Rightarrow> pystr \<Rightarrow> bool" where
  "final_sigma L prev rest =
     ((case dropWhile (case_ignorable L) prev of [] \<Rightarrow> False | c # cs \<Rightarrow> cased L c)
      \<and> (case dropWhile (case_ignorable L) rest of [] \<Rightarrow> True | c # cs \<Rightarrow> \<not> cased L c))"

fun lower_from :: "'f pylib \<Rightarrow> pystr \<Rightarrow> pystr \<Rightarrow> pystr" where
  "lower_from L prev [] = []"
| "lower_from L prev (c # rest) =
     (if c = 931 then [if final_sigma L prev rest then 962 else 963] else lower_char L c)
       @ lower_from L (c # prev) rest"

definition lower :: "'f pylib \<Rightarrow> pystr \<Rightarrow> pystr" where
  "lower L s = lower_from L [] s"

text \<open>\<^verbatim>\<open>sub in s\<close> on strings: \<open>sub\<close> occurs in \<open>s\<close> as a contiguous piece.\<close>

fun py_in :: "pystr \<Rightarrow> pystr \<Rightarrow> bool" where
  "py_in sub [] = (sub = [])"
| "py_in sub (c # cs) = (prefix sub (c # cs) \<or> py_in sub cs)"

section \<open>Search\<close>

definition buscar_por_nombre :: "'f pylib \<Rightarrow> 'f inventario \<Rightarrow> pystr \<Rightarrow> 'f producto list" where
  "buscar_por_nombre L self nombre_buscado =
     (let nombre_buscado = lower L nombre_buscado
      in filter (\<lambda>p. py_in nombre_buscado (lower L (nombre p))) (dict_values (productos self)))"

definition buscar_por_nombre1 :: "'f pylib \<Rightarrow> 'f inventario \<Rightarrow> pystr \<Rightarrow> 'f producto list" where
  "buscar_por_nombre1 L self nombre_buscado =
     (let nombre_buscado = lower L nombre_buscado
      in filter (\<lambda>p. py_in nombre_buscado (lower L (nombre p))) (dict_values (productos self)))"

definition obtener_todos :: "'f inventario \<Rightarrow> 'f producto list" where
  "obtener_todos self = dict_values (productos self)"

definition obtener_todos1 :: "'f inventario \<Rightarrow> 'f producto list" where
  "obtener_todos1 self = dict_values (productos self)"

definition buscar_por_id :: "'f inventario \<Rightarrow> pystr \<Rightarrow> 'f producto option" where
  "buscar_por_id self idp = dict_get (productos self) idp"

definition buscar_por_id1 :: "'f inventario \<Rightarrow> pystr \<Rightarrow> 'f producto option" where
  "buscar_por_id1 self idp = dict_get (productos self) idp"






section \<open>The file system and the console\<close>

text \<open>
  The world outside the process: the files (path to text), the lines printed so far,
  and the failures of the file system. \<open>fault w op path\<close> is the exception that the
  operation \<open>op\<close> raises on \<open>path\<close>, if any; a write that fails leaves the first
  \<open>cut w\<close> characters of its text in the file.
\<close>

datatype fsop = OpenR | OpenW | Write | Remove | Rename

text \<open>One constructor for each \<^verbatim>\<open>print\<close> of the two \<^verbatim>\<open>Inventario\<close> classes.\<close>

datatype msg =
    ErrorAlCargar exn
  | ErrorAlGuardar exn
  | ArchivoNoEncontrado pystr
  | ErrorDePermisosLeer pystr exn
  | ArchivoCorrupto pystr
  | ErrorInesperadoAlCargar exn
  | ErrorDePermisosAlGuardar exn
  | ErrorDeESAlGuardar exn
  | ErrorInesperadoAlGuardar exn
  | ProductoYaExiste pystr
  | ProductoNoEncontrado pystr
  | ErrorAlAgregar exn
  | ErrorAlEliminar exn
  | ErrorAlActualizar exn

record world =
  files :: "pystr \<Rightarrow> pystr option"
  fault :: "fsop \<Rightarrow> pystr \<Rightarrow> exn option"
  cut :: nat
  stdout :: "msg list"

definition print :: "msg \<Rightarrow> world \<Rightarrow> world" where
  "print m w = w\<lparr>stdout := stdout w @ [m]\<rparr>"

definition os_path_exists :: "pystr \<Rightarrow> world \<Rightarrow> bool" where
  "os_path_exists path w = (files w path \<noteq> None)"

text \<open>\<^verbatim>\<open>open(path, 'r')\<close> and reading the whole text.\<close>

definition open_r :: "pystr \<Rightarrow> world \<Rightarrow> pystr result" where
  "open_r path w =
     (case fault w OpenR path of
        Some e \<Rightarrow> Raise e
      | None \<Rightarrow> (case files w path of None \<Rightarrow> Raise FileNotFoundError | Some s \<Rightarrow> Return s))"

text \<open>\<^verbatim>\<open>open(path, 'w')\<close>: the file is created or emptied.\<close>

definition open_w :: "pystr \<Rightarrow> world \<Rightarrow> unit result \<times> world" where
  "open_w path w =
     (case fault w OpenW path of
        Some e \<Rightarrow> (Raise e, w)
      | None \<Rightarrow> (Return (), w\<lparr>files := (files w)(path \<mapsto> [])\<rparr>))"

text \<open>Writing a text to the file opened for writing, up to closing it.\<close>

definition write_text :: "pystr \<Rightarrow> pystr \<Rightarrow> world \<Rightarrow> unit result \<times> world" where
  "write_text path s w =
     (case fault w Write path of
        Some e \<Rightarrow> (Raise e, w\<lparr>files := (files w)(path \<mapsto> take (cut w) s)\<rparr>)
      | None \<Rightarrow> (Return (), w\<lparr>files := (files w)(path \<mapsto> s)\<rparr>))"

definition os_remove :: "pystr \<Rightarrow> world \<Rightarrow> unit result \<times> world" where
  "os_remove path w =
     (case fault w Remove path of
        Some e \<Rightarrow> (Raise e, w)
      | None \<Rightarrow>
          (case files w path of
             None \<Rightarrow> (Raise FileNotFoundError, w)
           | Some s \<Rightarrow> (Return (), w\<lparr>files := (files w)(path := None)\<rparr>)))"

definition os_rename :: "pystr \<Rightarrow> pystr \<Rightarrow> world \<Rightarrow> unit result \<times> world" where
  "os_rename src dst w =
     (case fault w Rename src of
        Some e \<Rightarrow> (Raise e, w)
      | None \<Rightarrow>
          (case files w src of
             None \<Rightarrow> (Raise FileNotFoundError, w)
           | Some s \<Rightarrow> (Return (), w\<lparr>files := (files w)(src := None, dst \<mapsto> s)\<rparr>)))"

text \<open>Statements in sequence: the first that does not return ends the block.\<close>

type_synonym step = "world \<Rightarrow> unit result \<times> world"

fun run_steps :: "step list \<Rightarrow> world \<Rightarrow> unit result \<times> world" where
  "run_steps [] w = (Return (), w)"
| "run_steps (s # ss) w =
     (case s w of
        (Return u, w') \<Rightarrow> run_steps ss w'
      | (Raise e, w') \<Rightarrow> (Raise e, w')
      | (Untyped, w') \<Rightarrow> (Untyped, w'))"

text \<open>
  Iterating over a file opened in text mode: the text is cut after each line break
  (\<^verbatim>\<open>\n\<close>, \<^verbatim>\<open>\r\n\<close> or \<^verbatim>\<open>\r\<close>), and each line break is given as \<^verbatim>\<open>\n\<close>. The
  accumulator holds the current line, reversed.
\<close>

fun lines_from :: "pystr \<Rightarrow> pystr \<Rightarrow> pystr list" where
  "lines_from acc [] = (if acc = [] then [] else [rev acc])"
| "lines_from acc (c # cs) =
     (if c = line_feed then rev (line_feed # acc) # lines_from [] cs
      else if c = carriage_return
      then rev (line_feed # acc) # lines_from [] (if cs \<noteq> [] \<and> hd cs = line_feed then tl cs else cs)
      else lines_from (c # acc) cs)"

definition file_lines :: "pystr \<Rightarrow> pystr list" where
  "file_lines s = lines_from [] s"

section \<open>The first program: a line of text for each product\<close>

text \<open>
  \<^verbatim>\<open>f"{producto.id}|{producto.nombre}|{producto.cantidad}|{producto.precio}\n"\<close>
\<close>

definition linea_de :: "'f pylib \<Rightarrow> 'f producto \<Rightarrow> pystr" where
  "linea_de L producto =
     id_producto producto @ [bar] @ nombre producto @ [bar] @ str_int (cantidad producto)
       @ [bar] @ float_str L (precio producto) @ [line_feed]"

text \<open>
  \<^verbatim>\<open>guardar_inventario\<close>: the file is opened for writing and one line is written for
  each product; \<^verbatim>\<open>except (PermissionError, IOError)\<close> prints and goes on.
\<close>

definition guardar_inventario :: "'f pylib \<Rightarrow> 'f inventario \<Rightarrow> world \<Rightarrow> unit result \<times> world" where
  "guardar_inventario L self w =
     (case run_steps
             [open_w (archivo self),
              write_text (archivo self) (concat (map (linea_de L) (dict_values (productos self))))] w of
        (Raise e, w') \<Rightarrow>
          if e = PermissionError \<or> is_OSError e
          then (Return (), print (ErrorAlGuardar e) w')
          else (Raise e, w')
      | (r, w') \<Rightarrow> (r, w'))"

text \<open>
  The body of the loop of \<^verbatim>\<open>cargar_inventario\<close>: the line is stripped and split at
  \<^verbatim>\<open>|\<close>; unpacking into four names raises \<^verbatim>\<open>ValueError\<close> unless there are exactly
  four fields, and so do \<^verbatim>\<open>int\<close> and \<^verbatim>\<open>float\<close> on a text they cannot read.
\<close>

definition producto_de_linea :: "'f pylib \<Rightarrow> pystr \<Rightarrow> 'f producto result" where
  "producto_de_linea L linea =
     (case py_split bar (py_strip linea) of
        [idp, nom, cant, prec] \<Rightarrow>
          (case int_parse (decimal_digit L) cant of
             None \<Rightarrow> Raise ValueError
           | Some c \<Rightarrow>
               (case float_parse L prec of
                  None \<Rightarrow> Raise ValueError
                | Some p \<Rightarrow>
                    Return \<lparr>id_producto = idp, nombre = nom, cantidad = c, precio = p\<rparr>))
      | _ \<Rightarrow> Raise ValueError)"

fun cargar_lineas ::
  "'f pylib \<Rightarrow> pystr list \<Rightarrow> (pystr, 'f producto) dict \<Rightarrow> unit result \<times> (pystr, 'f producto) dict"
where
  "cargar_lineas L [] d = (Return (), d)"
| "cargar_lineas L (linea # ls) d =
     (case producto_de_linea L linea of
        Return p \<Rightarrow> cargar_lineas L ls (dict_set (id_producto p) p d)
      | Raise e \<Rightarrow> (Raise e, d)
      | Untyped \<Rightarrow> (Untyped, d))"

text \<open>
  \<^verbatim>\<open>cargar_inventario\<close>: when the file exists it is read line by line into
  \<^verbatim>\<open>self.productos\<close>; \<^verbatim>\<open>except (FileNotFoundError, PermissionError)\<close> prints and
  goes on, any other exception leaves the method.
\<close>

definition cargar_inventario ::
  "'f pylib \<Rightarrow> 'f inventario \<Rightarrow> world \<Rightarrow> unit result \<times> 'f inventario \<times> world"
where
  "cargar_inventario L self w =
     (if os_path_exists (archivo self) w
      then (case (case open_r (archivo self) w of
                    Return s \<Rightarrow> cargar_lineas L (file_lines s) (productos self)
                  | Raise e \<Rightarrow> (Raise e, productos self)
                  | Untyped \<Rightarrow> (Untyped, productos self)) of
              (Raise e, d) \<Rightarrow>
                if e = FileNotFoundError \<or> e = PermissionError
                then (Return (), self\<lparr>productos := d\<rparr>, print (ErrorAlCargar e) w)
                else (Raise e, self\<lparr>productos := d\<rparr>, w)
            | (r, d) \<Rightarrow> (r, self\<lparr>productos := d\<rparr>, w))
      else (Return (), self, w))"

text \<open>\<^verbatim>\<open>Inventario(archivo)\<close>: an exception that leaves \<^verbatim>\<open>__init__\<close> leaves no object.\<close>

definition inventario_init :: "'f pylib \<Rightarrow> pystr \<Rightarrow> world \<Rightarrow> 'f inventario result \<times> world" where
  "inventario_init L path w =
     (case cargar_inventario L \<lparr>productos = [], archivo = path\<rparr> w of
        (Return u, self, w') \<Rightarrow> (Return self, w')
      | (Raise e, self, w') \<Rightarrow> (Raise e, w')
      | (Untyped, self, w') \<Rightarrow> (Untyped, w'))"

definition agregar_producto ::
  "'f pylib \<Rightarrow> 'f inventario \<Rightarrow> 'f producto \<Rightarrow> world \<Rightarrow> bool result \<times> 'f inventario \<times> world"
where
  "agregar_producto L self producto w =
     (if dict_in (id_producto producto) (productos self) then (Return False, self, w)
      else let self' = self\<lparr>productos := dict_set (id_producto producto) producto (productos self)\<rparr>
           in (case guardar_inventario L self' w of
                 (Return u, w') \<Rightarrow> (Return True, self', w')
               | (Raise e, w') \<Rightarrow> (Raise e, self', w')
               | (Untyped, w') \<Rightarrow> (Untyped, self', w')))"

definition eliminar_producto ::
  "'f pylib \<Rightarrow> 'f inventario \<Rightarrow> pystr \<Rightarrow> world \<Rightarrow> bool result \<times> 'f inventario \<times> world"
where
  "eliminar_producto L self idp w =
     (if dict_in idp (productos self)
      then let self' = self\<lparr>productos := dict_del idp (productos self)\<rparr>
           in (case guardar_inventario L self' w of
                 (Return u, w') \<Rightarrow> (Return True, self', w')
               | (Raise e, w') \<Rightarrow> (Raise e, self', w')
               | (Untyped, w') \<Rightarrow> (Untyped, self', w'))
      else (Return False, self, w))"

text \<open>
  \<^verbatim>\<open>actualizar_producto(id_producto, cantidad=None, precio=None)\<close>: an argument that
  is \<^verbatim>\<open>None\<close> leaves its attribute as it is. The product is changed in place, so it
  keeps its key and its position in the dict.
\<close>

definition actualizar ::
  "int option \<Rightarrow> 'f option \<Rightarrow> 'f producto \<Rightarrow> 'f producto"
where
  "actualizar cant prec producto =
     (let producto = (case cant of None \<Rightarrow> producto | Some c \<Rightarrow> producto\<lparr>cantidad := c\<rparr>)
      in (case prec of None \<Rightarrow> producto | Some p \<Rightarrow> producto\<lparr>precio := p\<rparr>))"

definition actualizar_producto ::
  "'f pylib \<Rightarrow> 'f inventario \<Rightarrow> pystr \<Rightarrow> int option \<Rightarrow> 'f option \<Rightarrow> world
     \<Rightarrow> bool result \<times> 'f inventario \<times> world"
where
  "actualizar_producto L self idp cant prec w =
     (case dict_get (productos self) idp of
        None \<Rightarrow> (Return False, self, w)
      | Some producto \<Rightarrow>
          let self' = self\<lparr>productos := dict_set idp (actualizar cant prec producto) (productos self)\<rparr>
          in (case guardar_inventario L self' w of
                (Return u, w') \<Rightarrow> (Return True, self', w')
              | (Raise e, w') \<Rightarrow> (Raise e, self', w')
              | (Untyped, w') \<Rightarrow> (Untyped, self', w')))"

section \<open>The second program: a JSON file\<close>

definition to_dict :: "'f producto \<Rightarrow> 'f json" where
  "to_dict self =
     JObj [(str ''id'', JStr (id_producto self)), (str ''nombre'', JStr (nombre self)),
           (str ''cantidad'', JInt (cantidad self)), (str ''precio'', JFloat (precio self))]"

text \<open>
  \<^verbatim>\<open>data['id']\<close>: subscripting a dict with a key it lacks raises \<^verbatim>\<open>KeyError\<close>, and
  subscripting any other JSON value with a str raises \<^verbatim>\<open>TypeError\<close>.
\<close>

definition subscript :: "'f json \<Rightarrow> pystr \<Rightarrow> 'f json result" where
  "subscript data k =
     (case data of
        JObj d \<Rightarrow> (case dict_get d k of None \<Rightarrow> Raise KeyError | Some v \<Rightarrow> Return v)
      | _ \<Rightarrow> Raise TypeError)"

text \<open>
  \<^verbatim>\<open>Producto.from_dict\<close>: the four subscripts are evaluated in the order id, nombre,
  cantidad, precio, and the first that raises ends the call.
\<close>

definition from_dict :: "'f json \<Rightarrow> 'f producto result" where
  "from_dict data =
     (case subscript data (str ''id'') of
        Raise e \<Rightarrow> Raise e
      | Untyped \<Rightarrow> Untyped
      | Return i \<Rightarrow>
     (case subscript data (str ''nombre'') of
        Raise e \<Rightarrow> Raise e
      | Untyped \<Rightarrow> Untyped
      | Return n \<Rightarrow>
     (case subscript data (str ''cantidad'') of
        Raise e \<Rightarrow> Raise e
      | Untyped \<Rightarrow> Untyped
      | Return c \<Rightarrow>
     (case subscript data (str ''precio'') of
        Raise e \<Rightarrow> Raise e
      | Untyped \<Rightarrow> Untyped
      | Return p \<Rightarrow>
     (case (i, n, c, p) of
        (JStr i', JStr n', JInt c', JFloat p') \<Rightarrow>
          Return \<lparr>id_producto = i', nombre = n', cantidad = c', precio = p'\<rparr>
      | _ \<Rightarrow> Untyped)))))"

text \<open>
  \<^verbatim>\<open>{k: Producto.from_dict(v) for k, v in data.items()}\<close>: the items are taken in
  order, and the first \<^verbatim>\<open>from_dict\<close> that raises ends the comprehension, also after
  an item that was untyped.
\<close>

fun productos_de_items ::
  "(pystr \<times> 'f json) list \<Rightarrow> (pystr, 'f producto) dict \<Rightarrow> (pystr, 'f producto) dict result"
where
  "productos_de_items [] d = Return d"
| "productos_de_items ((k, v) # items) d =
     (case from_dict v of
        Return p \<Rightarrow> productos_de_items items (dict_set k p d)
      | Raise e \<Rightarrow> Raise e
      | Untyped \<Rightarrow> (case productos_de_items items d of Raise e \<Rightarrow> Raise e | _ \<Rightarrow> Untyped))"

text \<open>
  The \<^verbatim>\<open>try\<close> block of \<^verbatim>\<open>cargar_inventario\<close>: \<open>Return None\<close> when the file does not
  exist, else the new value of \<^verbatim>\<open>self.productos\<close>. \<^verbatim>\<open>data.items()\<close> on a document
  that is not a dict raises \<^verbatim>\<open>AttributeError\<close>.
\<close>

definition cargar_inventario1_try ::
  "'f pylib \<Rightarrow> 'f inventario \<Rightarrow> world \<Rightarrow> (pystr, 'f producto) dict option result"
where
  "cargar_inventario1_try L self w =
     (if os_path_exists (archivo self) w
      then (case open_r (archivo self) w of
              Raise e \<Rightarrow> Raise e
            | Untyped \<Rightarrow> Untyped
            | Return s \<Rightarrow>
                (case json_loads L s of
                   None \<Rightarrow> Raise JSONDecodeError
                 | Some data \<Rightarrow>
                     (case data of
                        JObj items \<Rightarrow>
                          (case productos_de_items items [] of
                             Return d \<Rightarrow> Return (Some d)
                           | Raise e \<Rightarrow> Raise e
                           | Untyped \<Rightarrow> Untyped)
                      | _ \<Rightarrow> Raise AttributeError)))
      else Return None)"

text \<open>
  \<^verbatim>\<open>cargar_inventario\<close> with its handlers, in the order of the source:
  \<^verbatim>\<open>FileNotFoundError\<close> prints, \<^verbatim>\<open>PermissionError\<close> prints and raises again,
  \<^verbatim>\<open>json.JSONDecodeError\<close> prints, any other \<^verbatim>\<open>Exception\<close> prints and empties
  \<^verbatim>\<open>self.productos\<close>.
\<close>

definition cargar_inventario1 ::
  "'f pylib \<Rightarrow> 'f inventario \<Rightarrow> world \<Rightarrow> unit result \<times> 'f inventario \<times> world"
where
  "cargar_inventario1 L self w =
     (case cargar_inventario1_try L self w of
        Return None \<Rightarrow> (Return (), self, w)
      | Return (Some d) \<Rightarrow> (Return (), self\<lparr>productos := d\<rparr>, w)
      | Untyped \<Rightarrow> (Untyped, self, w)
      | Raise e \<Rightarrow>
          if e = FileNotFoundError
          then (Return (), self, print (ArchivoNoEncontrado (archivo self)) w)
          else if e = PermissionError
          then (Raise e, self, print (ErrorDePermisosLeer (archivo self) e) w)
          else if e = JSONDecodeError
          then (Return (), self, print (ArchivoCorrupto (archivo self)) w)
          else if is_Exception e
          then (Return (), self\<lparr>productos := []\<rparr>, print (ErrorInesperadoAlCargar e) w)
          else (Raise e, self, w))"

definition inventario_init1 :: "'f pylib \<Rightarrow> pystr \<Rightarrow> world \<Rightarrow> 'f inventario result \<times> world" where
  "inventario_init1 L path w =
     (case cargar_inventario1 L \<lparr>productos = [], archivo = path\<rparr> w of
        (Return u, self, w') \<Rightarrow> (Return self, w')
      | (Raise e, self, w') \<Rightarrow> (Raise e, w')
      | (Untyped, self, w') \<Rightarrow> (Untyped, w'))"

text \<open>
  The statements of the \<^verbatim>\<open>try\<close> block of \<^verbatim>\<open>guardar_inventario\<close>, in order: open
  the temporary file, write the document, remove the file if it exists, rename the
  temporary file to it.
\<close>

definition temp_file :: "'f inventario \<Rightarrow> pystr" where
  "temp_file self = archivo self @ str ''.tmp''"

definition documento :: "'f inventario \<Rightarrow> 'f json" where
  "documento self = JObj (map (\<lambda>(k, v). (k, to_dict v)) (productos self))"

definition guardar_inventario1_try :: "'f pylib \<Rightarrow> 'f inventario \<Rightarrow> step list" where
  "guardar_inventario1_try L self =
     [open_w (temp_file self),
      write_text (temp_file self) (json_dumps L (documento self)),
      (\<lambda>w. if os_path_exists (archivo self) w then os_remove (archivo self) w else (Return (), w)),
      os_rename (temp_file self) (archivo self)]"

text \<open>
  The three handlers of \<^verbatim>\<open>guardar_inventario\<close> differ in the line they print; each
  removes the temporary file if it exists and raises the exception again. An exception
  of that \<^verbatim>\<open>os.remove\<close> replaces the first one.
\<close>

definition guardar_inventario1 :: "'f pylib \<Rightarrow> 'f inventario \<Rightarrow> world \<Rightarrow> unit result \<times> world" where
  "guardar_inventario1 L self w =
     (case run_steps (guardar_inventario1_try L self) w of
        (Raise e, w') \<Rightarrow>
          if is_Exception e
          then let w2 = print (if e = PermissionError then ErrorDePermisosAlGuardar e
                                else if is_OSError e then ErrorDeESAlGuardar e
                                else ErrorInesperadoAlGuardar e) w'
               in if os_path_exists (temp_file self) w2
                  then (case os_remove (temp_file self) w2 of
                          (Return u, w3) \<Rightarrow> (Raise e, w3)
                        | (r, w3) \<Rightarrow> (r, w3))
                  else (Raise e, w2)
          else (Raise e, w')
      | (r, w') \<Rightarrow> (r, w'))"

text \<open>
  The file system when the process is killed after the first \<open>n\<close> statements of the
  \<^verbatim>\<open>try\<close> block have run: no handler runs then.
\<close>

definition guardar_inventario1_killed :: "nat \<Rightarrow> 'f pylib \<Rightarrow> 'f inventario \<Rightarrow> world \<Rightarrow> world" where
  "guardar_inventario1_killed n L self w = snd (run_steps (take n (guardar_inventario1_try L self)) w)"

text \<open>
  The three operations: \<^verbatim>\<open>except Exception\<close> around the whole body prints and
  returns \<^verbatim>\<open>False\<close>.
\<close>

definition agregar_producto1 ::
  "'f pylib \<Rightarrow> 'f inventario \<Rightarrow> 'f producto \<Rightarrow> world \<Rightarrow> bool result \<times> 'f inventario \<times> world"
where
  "agregar_producto1 L self producto w =
     (if dict_in (id_producto producto) (productos self)
      then (Return False, self, print (ProductoYaExiste (id_producto producto)) w)
      else let self' = self\<lparr>productos := dict_set (id_producto producto) producto (productos self)\<rparr>
           in (case guardar_inventario1 L self' w of
                 (Return u, w') \<Rightarrow> (Return True, self', w')
               | (Raise e, w') \<Rightarrow>
                   if is_Exception e then (Return False, self', print (ErrorAlAgregar e) w')
                   else (Raise e, self', w')
               | (Untyped, w') \<Rightarrow> (Untyped, self', w')))"

definition eliminar_producto1 ::
  "'f pylib \<Rightarrow> 'f inventario \<Rightarrow> pystr \<Rightarrow> world \<Rightarrow> bool result \<times> 'f inventario \<times> world"
where
  "eliminar_producto1 L self idp w =
     (if \<not> dict_in idp (productos self)
      then (Return False, self, print (ProductoNoEncontrado idp) w)
      else let self' = self\<lparr>productos := dict_del idp (productos self)\<rparr>
           in (case guardar_inventario1 L self' w of
                 (Return u, w') \<Rightarrow> (Return True, self', w')
               | (Raise e, w') \<Rightarrow>
                   if is_Exception e then (Return False, self', print (ErrorAlEliminar e) w')
                   else (Raise e, self', w')
               | (Untyped, w') \<Rightarrow> (Untyped, self', w')))"

definition actualizar_producto1 ::
  "'f pylib \<Rightarrow> 'f inventario \<Rightarrow> pystr \<Rightarrow> int option \<Rightarrow> 'f option \<Rightarrow> world
     \<Rightarrow> bool result \<times> 'f inventario \<times> world"
where
  "actualizar_producto1 L self idp cant prec w =
     (case dict_get (productos self) idp of
        None \<Rightarrow> (Return False, self, print (ProductoNoEncontrado idp) w)
      | Some producto \<Rightarrow>
          let self' = self\<lparr>productos := dict_set idp (actualizar cant prec producto) (productos self)\<rparr>
          in (case guardar_inventario1 L self' w of
                (Return u, w') \<Rightarrow> (Return True, self', w')
              | (Raise e, w') \<Rightarrow>
                  if is_Exception e then (Return False, self', print (ErrorAlActualizar e) w')
                  else (Raise e, self', w')
              | (Untyped, w') \<Rightarrow> (Untyped, self', w')))"

section \<open>A library to run the programs on examples\<close>

text \<open>
  The examples below run the programs with a small stand-in for the interpreter's
  part. Its floats are the floats of whole value (an \<^typ>\<open>int\<close> \<open>n\<close> stands for the
  float that Python prints as \<^verbatim>\<open>n.0\<close>); its \<^verbatim>\<open>json.dump\<close> prints with
  \<^verbatim>\<open>indent=4\<close> (strings of printable ASCII characters without quotes and
  backslashes need no escapes, and none is written); its \<^verbatim>\<open>json.load\<close> reads back
  the documents of a given list and refuses every other text. Of the Unicode database it
  has the Greek letters 913 to 974, the capital I with a dot (304), whose lower case is
  an i and a combining dot (775), the case-ignorable characters below 256 and that dot,
  and the Arabic-Indic digits 1632 to 1641.
\<close>

definition unicode_lower_w :: "nat \<Rightarrow> pystr" where
  "unicode_lower_w c =
     (if 913 \<le> c \<and> c \<le> 939 \<and> c \<noteq> 930 then [c + 32]
      else if c = 304 then [105, 775]
      else [c])"

definition cased_w :: "nat \<Rightarrow> bool" where
  "cased_w c =
     ((65 \<le> c \<and> c \<le> 90) \<or> (97 \<le> c \<and> c \<le> 122) \<or> c = 170 \<or> c = 181 \<or> c = 186
      \<or> (192 \<le> c \<and> c \<le> 255 \<and> c \<noteq> 215 \<and> c \<noteq> 247) \<or> c = 304
      \<or> (913 \<le> c \<and> c \<le> 974 \<and> c \<noteq> 930))"

definition case_ignorable_w :: "nat \<Rightarrow> bool" where
  "case_ignorable_w c =
     (c = 39 \<or> c = 46 \<or> c = 58 \<or> c = 94 \<or> c = 96 \<or> c = 168 \<or> c = 173 \<or> c = 175
      \<or> c = 180 \<or> c = 183 \<or> c = 184 \<or> c = 775)"

definition decimal_digit_w :: "nat \<Rightarrow> nat option" where
  "decimal_digit_w c = (if 1632 \<le> c \<and> c \<le> 1641 then Some (c - 1632) else None)"

definition float_str_w :: "int \<Rightarrow> pystr" where
  "float_str_w n = str_int n @ str ''.0''"

definition float_parse_w :: "pystr \<Rightarrow> int option" where
  "float_parse_w s =
     (let t = py_strip s
      in if suffix (str ''.0'') t then int_parse decimal_digit_w (take (length t - 2) t)
         else int_parse decimal_digit_w t)"

definition indent_w :: "nat \<Rightarrow> pystr" where
  "indent_w n = line_feed # replicate (4 * n) 32"

fun join_w :: "pystr \<Rightarrow> pystr list \<Rightarrow> pystr" where
  "join_w sep [] = []"
| "join_w sep [x] = x"
| "join_w sep (x # y # ys) = x @ sep @ join_w sep (y # ys)"

fun json_text_w :: "nat \<Rightarrow> int json \<Rightarrow> pystr" where
  "json_text_w n JNull = str ''null''"
| "json_text_w n (JBool b) = (if b then str ''true'' else str ''false'')"
| "json_text_w n (JInt i) = str_int i"
| "json_text_w n (JFloat x) = float_str_w x"
| "json_text_w n (JStr s) = str ''\"'' @ s @ str ''\"''"
| "json_text_w n (JArr xs) =
     (if xs = [] then str ''[]''
      else str ''['' @ indent_w (Suc n)
           @ join_w (str '','' @ indent_w (Suc n)) (map (json_text_w (Suc n)) xs)
           @ indent_w n @ str '']'')"
| "json_text_w n (JObj kvs) =
     (if kvs = [] then str ''{}''
      else str ''{'' @ indent_w (Suc n)
           @ join_w (str '','' @ indent_w (Suc n))
               (map (\<lambda>kv. str ''\"'' @ fst kv @ str ''\": '' @ json_text_w (Suc n) (snd kv)) kvs)
           @ indent_w n @ str ''}'')"

definition lib_w :: "int json list \<Rightarrow> int pylib" where
  "lib_w docs =
     \<lparr>float_str = float_str_w, float_parse = float_parse_w,
      json_dumps = json_text_w 0,
      json_loads = (\<lambda>s. find (\<lambda>d. json_text_w 0 d = s) docs),
      unicode_lower = unicode_lower_w, cased = cased_w, case_ignorable = case_ignorable_w,
      decimal_digit = decimal_digit_w\<rparr>"

text \<open>A world with no file, no failure and nothing printed.\<close>

definition world0 :: world where
  "world0 = \<lparr>files = (\<lambda>p. None), fault = (\<lambda>op p. None), cut = 0, stdout = []\<rparr>"

section \<open>Examples\<close>

definition widget_a :: "int producto" where
  "widget_a = \<lparr>id_producto = str ''W1'', nombre = str ''Widget A'', cantidad = 3, precio = 2\<rparr>"

definition gadget_b :: "int producto" where
  "gadget_b = \<lparr>id_producto = str ''G1'', nombre = str ''gadget B'', cantidad = 1, precio = 9\<rparr>"

definition tuerca :: "int producto" where
  "tuerca = \<lparr>id_producto = str ''T1'', nombre = str ''Tuerca'', cantidad = 40, precio = 1\<rparr>"

definition widgets :: "int inventario" where
  "widgets = \<lparr>productos = [(str ''W1'', widget_a), (str ''G1'', gadget_b)], archivo = str ''inventario.txt''\<rparr>"

text \<open>A world where every \<^verbatim>\<open>open(path, 'w')\<close> raises \<^verbatim>\<open>PermissionError\<close>.\<close>

definition sin_permiso :: world where
  "sin_permiso = world0\<lparr>fault := (\<lambda>op p. if op = OpenW then Some PermissionError else None)\<rparr>"

definition widgets1 :: "int inventario" where
  "widgets1 = \<lparr>productos = [(str ''W1'', widget_a), (str ''G1'', gadget_b)], archivo = str ''inventario.json''\<rparr>"

text \<open>A world whose only file is \<^verbatim>\<open>inventario.json\<close>, with the given text.\<close>

definition con_archivo :: "pystr \<Rightarrow> world" where
  "con_archivo s = world0\<lparr>files := (\<lambda>p. if p = str ''inventario.json'' then Some s else None)\<rparr>"

text \<open>The same world where every \<^verbatim>\<open>open(path, 'r')\<close> raises the given exception.\<close>

definition ilegible :: "pystr \<Rightarrow> exn \<Rightarrow> world" where
  "ilegible s e = (con_archivo s)\<lparr>fault := (\<lambda>op p. if op = OpenR then Some e else None)\<rparr>"

text \<open>A world whose only file is \<^verbatim>\<open>inventario.txt\<close>, with the given text.\<close>

definition con_texto :: "pystr \<Rightarrow> world" where
  "con_texto s = world0\<lparr>files := (\<lambda>p. if p = str ''inventario.txt'' then Some s else None)\<rparr>"

text \<open>Three lines, the second without bars.\<close>

definition linea_w1 :: pystr where
  "linea_w1 = str ''W1|Widget A|3|2.0'' @ [line_feed]"

definition linea_sin_barras :: pystr where
  "linea_sin_barras = str ''sin barras'' @ [line_feed]"

definition linea_g1 :: pystr where
  "linea_g1 = str ''G1|gadget B|1|9.0'' @ [line_feed]"

text \<open>A line whose quantity begins with the file separator, code point 28.\<close>

definition linea_fs :: pystr where
  "linea_fs = str ''W1|Widget A|'' @ [28] @ str ''3|2.0'' @ [line_feed]"

definition texto_malo :: pystr where
  "texto_malo = linea_w1 @ linea_sin_barras @ linea_g1"

definition texto_fs :: pystr where
  "texto_fs = linea_fs @ linea_sin_barras"

text \<open>A store with a bar in a name, and one with a line break in a name.\<close>

definition con_barra :: "int inventario" where
  "con_barra =
     \<lparr>productos = [(str ''B1'', \<lparr>id_producto = str ''B1'', nombre = str ''Tubo 1|2'', cantidad = 4, precio = 3\<rparr>)],
      archivo = str ''inventario.txt''\<rparr>"

definition con_salto :: "int inventario" where
  "con_salto =
     \<lparr>productos =
        [(str ''B2'', \<lparr>id_producto = str ''B2'', nombre = str ''Tubo'' @ [line_feed] @ str ''largo'', cantidad = 4,
                  precio = 3\<rparr>)],
      archivo = str ''inventario.txt''\<rparr>"

text \<open>A store with an id that begins with a blank.\<close>

definition con_espacio :: "int inventario" where
  "con_espacio =
     \<lparr>productos = [(str '' P1'', \<lparr>id_producto = str '' P1'', nombre = str ''Tubo'', cantidad = 4, precio = 3\<rparr>)],
      archivo = str ''inventario.txt''\<rparr>"






section \<open>Invariants of the store\<close>

text \<open>A Python dict holds each key once.\<close>

definition dict_ok :: "('k, 'v) dict \<Rightarrow> bool" where
  "dict_ok d = distinct (map fst d)"

text \<open>Every key \<open>k\<close> of \<^verbatim>\<open>self.productos\<close> satisfies \<^verbatim>\<open>self.productos[k].id == k\<close>.\<close>

definition ids_match :: "'f inventario \<Rightarrow> bool" where
  "ids_match self =
     list_all (\<lambda>k. map_option id_producto (dict_get (productos self) k) = Some k)
       (map fst (productos self))"

text \<open>No file operation of \<^verbatim>\<open>guardar_inventario\<close> fails in the world.\<close>

definition guardar_sin_fallos :: "'f inventario \<Rightarrow> world \<Rightarrow> bool" where
  "guardar_sin_fallos self w =
     (fault w OpenW (archivo self) = None \<and> fault w Write (archivo self) = None)"

definition guardar1_sin_fallos :: "'f inventario \<Rightarrow> world \<Rightarrow> bool" where
  "guardar1_sin_fallos self w =
     (fault w OpenW (temp_file self) = None \<and> fault w Write (temp_file self) = None
      \<and> fault w Remove (archivo self) = None \<and> fault w Rename (temp_file self) = None)"

text \<open>The text that \<^verbatim>\<open>guardar_inventario\<close> of the first program writes.\<close>

definition texto :: "'f pylib \<Rightarrow> 'f inventario \<Rightarrow> pystr" where
  "texto L self = concat (map (linea_de L) (dict_values (productos self)))"

section \<open>Lines and round trips, in the words of the specification\<close>

text \<open>
  A line is malformed when it does not split at \<^verbatim>\<open>|\<close> into exactly four fields, or
  when its quantity does not read as an int or its price as a float.
\<close>

definition linea_malformada :: "'f pylib \<Rightarrow> pystr \<Rightarrow> bool" where
  "linea_malformada L linea =
     (let campos = py_split bar (py_strip linea)
      in length campos \<noteq> 4 \<or> int_parse (decimal_digit L) (campos ! 2) = None \<or> float_parse L (campos ! 3) = None)"

text \<open>A text without the separator of fields and without a line break.\<close>

definition sin_separadores :: "pystr \<Rightarrow> bool" where
  "sin_separadores s = list_all (\<lambda>c. c \<noteq> bar \<and> c \<noteq> line_feed \<and> c \<noteq> carriage_return) s"

text \<open>
  What the model asks of the interpreter for a float \<open>x\<close>: \<^verbatim>\<open>float(str(x)) == x\<close>,
  and \<^verbatim>\<open>str(x)\<close> has no bar and no white space (it is made of digits, a sign, a point,
  an exponent, or it is \<^verbatim>\<open>inf\<close>).
\<close>

definition float_texto_ok :: "'f pylib \<Rightarrow> 'f \<Rightarrow> bool" where
  "float_texto_ok L x =
     (float_parse L (float_str L x) = Some x
      \<and> list_all (\<lambda>c. c \<noteq> bar \<and> \<not> is_space c) (float_str L x))"

text \<open>
  The stores that the text file gives back: each key is the id of its product, ids and
  names are without separators, and no id begins with white space.
\<close>

definition producto_guardable :: "'f pylib \<Rightarrow> pystr \<Rightarrow> 'f producto \<Rightarrow> bool" where
  "producto_guardable L k p =
     (k = id_producto p \<and> sin_separadores (id_producto p)
      \<and> (id_producto p = [] \<or> \<not> is_space (hd (id_producto p)))
      \<and> sin_separadores (nombre p) \<and> float_texto_ok L (precio p))"

definition guardable :: "'f pylib \<Rightarrow> 'f inventario \<Rightarrow> bool" where
  "guardable L self =
     (dict_ok (productos self) \<and> list_all (\<lambda>(k, p). producto_guardable L k p) (productos self))"

section \<open>Properties of the search\<close>

lemma py_in_sublist: "py_in sub s = sublist sub s"
  by (induction s) (auto simp: sublist_Cons_right)

















lemma lower_Nil: "lower L [] = []"
  by (simp add: lower_def)

lemma py_in_Nil: "py_in [] s"
  by (simp add: py_in_sublist)

text \<open>
  C9: in both programs \<^verbatim>\<open>buscar_por_nombre\<close> with the empty string returns every
  product of the store, in the order of the dict: both products of the example store,
  not the empty list.
\<close>

theorem buscar_por_nombre_vacio:
  "buscar_por_nombre L self [] = map snd (productos self)
   \<and> buscar_por_nombre1 L self [] = map snd (productos self)
   \<and> buscar_por_nombre (lib_w []) widgets [] = [widget_a, gadget_b]
   \<and> buscar_por_nombre1 (lib_w []) widgets1 [] = [widget_a, gadget_b]"
  by (simp add: buscar_por_nombre_def buscar_por_nombre1_def dict_values_def lower_Nil py_in_Nil
        widgets_def widgets1_def)

section \<open>Properties of the dict\<close>

lemma dict_get_set: "dict_get (dict_set k v d) k' = (if k' = k then Some v else dict_get d k')"
  by (induction d) (auto simp: dict_get_def)

lemma map_fst_dict_set:
  "map fst (dict_set k v d) = (if k \<in> set (map fst d) then map fst d else map fst d @ [k])"
  by (induction d) force+

lemma dict_in_keys: "dict_in k d = (k \<in> set (map fst d))"
  by (induction d) (auto simp: dict_in_def dict_get_def)

lemma dict_set_notin: "\<not> dict_in k d \<Longrightarrow> dict_set k v d = d @ [(k, v)]"
  by (induction d) (auto simp: dict_in_def dict_get_def)

lemma dict_ok_set: "dict_ok d \<Longrightarrow> dict_ok (dict_set k v d)"
  by (simp add: dict_ok_def map_fst_dict_set)

lemma dict_ok_del: "dict_ok d \<Longrightarrow> dict_ok (dict_del k d)"
  by (simp add: dict_ok_def dict_del_def distinct_map_filter)

lemma dict_get_del: "dict_get (dict_del k d) k' = (if k' = k then None else dict_get d k')"
  by (induction d) (auto simp: dict_get_def dict_del_def)

lemma dict_get_Some_key: "dict_get d k = Some v \<Longrightarrow> k \<in> set (map fst d)"
  using dict_in_keys[of k d] by (simp add: dict_in_def)

lemma key_dict_get: "k \<in> set (map fst d) \<Longrightarrow> \<exists>v. dict_get d k = Some v"
  using dict_in_keys[of k d] by (simp add: dict_in_def)

lemma ids_match_iff:
  "ids_match self = (\<forall>k p. dict_get (productos self) k = Some p \<longrightarrow> id_producto p = k)"
proof
  assume m: "ids_match self"
  show "\<forall>k p. dict_get (productos self) k = Some p \<longrightarrow> id_producto p = k"
  proof (intro allI impI)
    fix k p
    assume g: "dict_get (productos self) k = Some p"
    then have "k \<in> set (map fst (productos self))"
      by (rule dict_get_Some_key)
    with m have "map_option id_producto (dict_get (productos self) k) = Some k"
      unfolding ids_match_def list_all_iff by blast
    with g show "id_producto p = k" by simp
  qed
next
  assume a: "\<forall>k p. dict_get (productos self) k = Some p \<longrightarrow> id_producto p = k"
  show "ids_match self"
    unfolding ids_match_def list_all_iff
  proof
    fix k
    assume "k \<in> set (map fst (productos self))"
    then obtain p where g: "dict_get (productos self) k = Some p"
      using key_dict_get by fastforce
    with a have "id_producto p = k" by blast
    with g show "map_option id_producto (dict_get (productos self) k) = Some k" by simp
  qed
qed

section \<open>The store after each operation\<close>

lemma agregar_producto_state:
  "fst (snd (agregar_producto L self p w)) =
     (if dict_in (id_producto p) (productos self) then self
      else self\<lparr>productos := dict_set (id_producto p) p (productos self)\<rparr>)"
  by (simp add: agregar_producto_def Let_def split: prod.splits result.splits)

lemma eliminar_producto_state:
  "fst (snd (eliminar_producto L self k w)) =
     (if dict_in k (productos self) then self\<lparr>productos := dict_del k (productos self)\<rparr>
      else self)"
  by (simp add: eliminar_producto_def Let_def split: prod.splits result.splits)

lemma actualizar_producto_state:
  "fst (snd (actualizar_producto L self k c x w)) =
     (case dict_get (productos self) k of
        None \<Rightarrow> self
      | Some p \<Rightarrow> self\<lparr>productos := dict_set k (actualizar c x p) (productos self)\<rparr>)"
  by (simp add: actualizar_producto_def Let_def split: prod.splits result.splits option.splits)

lemma agregar_producto1_state:
  "fst (snd (agregar_producto1 L self p w)) =
     (if dict_in (id_producto p) (productos self) then self
      else self\<lparr>productos := dict_set (id_producto p) p (productos self)\<rparr>)"
  by (simp add: agregar_producto1_def Let_def split: prod.splits result.splits)

lemma eliminar_producto1_state:
  "fst (snd (eliminar_producto1 L self k w)) =
     (if dict_in k (productos self) then self\<lparr>productos := dict_del k (productos self)\<rparr>
      else self)"
  by (simp add: eliminar_producto1_def Let_def split: prod.splits result.splits)

lemma actualizar_producto1_state:
  "fst (snd (actualizar_producto1 L self k c x w)) =
     (case dict_get (productos self) k of
        None \<Rightarrow> self
      | Some p \<Rightarrow> self\<lparr>productos := dict_set k (actualizar c x p) (productos self)\<rparr>)"
  by (simp add: actualizar_producto1_def Let_def split: prod.splits result.splits option.splits)

lemma id_actualizar: "id_producto (actualizar c x p) = id_producto p"
  by (simp add: actualizar_def Let_def split: option.splits)

lemma ids_match_set:
  assumes "ids_match self" and "id_producto p = k"
  shows "ids_match (self\<lparr>productos := dict_set k p (productos self)\<rparr>)"
  using assms unfolding ids_match_iff by (simp add: dict_get_set)

lemma ids_match_del:
  assumes "ids_match self"
  shows "ids_match (self\<lparr>productos := dict_del k (productos self)\<rparr>)"
  using assms unfolding ids_match_iff by (simp add: dict_get_del)

lemma ids_match_actualizar:
  assumes "ids_match self" and "dict_get (productos self) k = Some p"
  shows "ids_match (self\<lparr>productos := dict_set k (actualizar c x p) (productos self)\<rparr>)"
proof -
  from assms have "id_producto p = k"
    unfolding ids_match_iff by blast
  then show ?thesis
    using assms(1) by (intro ids_match_set) (simp_all add: id_actualizar)
qed

text \<open>
  C10: the invariant that every key \<open>k\<close> of \<^verbatim>\<open>self.productos\<close> holds a product whose
  id is \<open>k\<close> is kept by \<^verbatim>\<open>agregar_producto\<close>, \<^verbatim>\<open>eliminar_producto\<close> and
  \<^verbatim>\<open>actualizar_producto\<close> of both programs, for all arguments, in every world and
  whatever the outcome of the call.
\<close>

theorem ids_match_preserved:
  assumes "ids_match self"
  shows "ids_match (fst (snd (agregar_producto L self p w)))
       \<and> ids_match (fst (snd (eliminar_producto L self k w)))
       \<and> ids_match (fst (snd (actualizar_producto L self k c x w)))
       \<and> ids_match (fst (snd (agregar_producto1 L self p w)))
       \<and> ids_match (fst (snd (eliminar_producto1 L self k w)))
       \<and> ids_match (fst (snd (actualizar_producto1 L self k c x w)))"
  using assms
  by (simp add: agregar_producto_state eliminar_producto_state actualizar_producto_state
        agregar_producto1_state eliminar_producto1_state actualizar_producto1_state
        ids_match_set ids_match_del ids_match_actualizar split: option.splits)

lemmas ejemplos = widgets_def widget_a_def gadget_b_def tuerca_def world0_def sin_permiso_def

theorem ids_match_preserved_witness:
  "ids_match widgets
   \<and> ids_match (fst (snd (agregar_producto (lib_w []) widgets tuerca world0)))
   \<and> ids_match (fst (snd (eliminar_producto (lib_w []) widgets (str ''W1'') world0)))
   \<and> ids_match (fst (snd (actualizar_producto (lib_w []) widgets (str ''W1'') (Some 5) None world0)))
   \<and> ids_match (fst (snd (agregar_producto1 (lib_w []) widgets tuerca world0)))
   \<and> ids_match (fst (snd (eliminar_producto1 (lib_w []) widgets (str ''W1'') world0)))
   \<and> ids_match (fst (snd (actualizar_producto1 (lib_w []) widgets (str ''W1'') (Some 5) None world0)))"
proof -
  have m: "ids_match widgets"
    by (simp add: ids_match_def dict_get_def ejemplos)
  from m ids_match_preserved[OF m, of "lib_w []" tuerca world0 "str ''W1''" "Some 5" None]
  show ?thesis by simp
qed

text \<open>The operations keep the keys of the dict distinct.\<close>

lemma dict_ok_preserved:
  assumes "dict_ok (productos self)"
  shows "dict_ok (productos (fst (snd (agregar_producto L self p w))))"
    and "dict_ok (productos (fst (snd (eliminar_producto L self k w))))"
    and "dict_ok (productos (fst (snd (actualizar_producto L self k c x w))))"
    and "dict_ok (productos (fst (snd (agregar_producto1 L self p w))))"
    and "dict_ok (productos (fst (snd (eliminar_producto1 L self k w))))"
    and "dict_ok (productos (fst (snd (actualizar_producto1 L self k c x w))))"
  using assms
  by (simp_all add: agregar_producto_state eliminar_producto_state actualizar_producto_state
        agregar_producto1_state eliminar_producto1_state actualizar_producto1_state
        dict_ok_set dict_ok_del split: option.splits)

section \<open>Saving\<close>

lemma temp_file_neq: "temp_file self \<noteq> archivo self"
  by (simp add: temp_file_def)

lemma guardar_inventario_ok:
  assumes "guardar_sin_fallos self w"
  shows "guardar_inventario L self w
           = (Return (), w\<lparr>files := (files w)(archivo self \<mapsto> texto L self)\<rparr>)"
  using assms
  by (simp add: guardar_inventario_def guardar_sin_fallos_def open_w_def write_text_def texto_def)

lemma guardar_inventario1_ok:
  assumes "guardar1_sin_fallos self w"
  shows "guardar_inventario1 L self w
           = (Return (), w\<lparr>files := (files w)(temp_file self := None,
                                   archivo self \<mapsto> json_dumps L (documento self))\<rparr>)"
  using assms temp_file_neq[of self]
  by (auto simp: guardar_inventario1_def guardar_inventario1_try_def guardar1_sin_fallos_def
        open_w_def write_text_def os_path_exists_def os_remove_def os_rename_def fun_eq_iff
        split: option.splits)

section \<open>Updating\<close>

lemma actualizar_cantidad: "actualizar (Some q) None p = p\<lparr>cantidad := q\<rparr>"
  by (simp add: actualizar_def)

lemma actualizar_precio: "actualizar None (Some x) p = p\<lparr>precio := x\<rparr>"
  by (simp add: actualizar_def)

lemma dict_get_in: "dict_get d k = Some v \<Longrightarrow> dict_in k d"
  by (simp add: dict_in_def)

text \<open>
  C6: in both programs, for an id that is present, \<^verbatim>\<open>actualizar_producto\<close> with a
  quantity and no price changes only the quantity of that product (its price, name
  and id stay), and with a price and no quantity only the price; the other products
  and the order of the keys stay as they are. For an id that is absent it returns
  \<^verbatim>\<open>False\<close>, changes no product and writes no file.
\<close>

theorem actualizar_producto_parcial:
  "(dict_get (productos self) k = Some p \<longrightarrow>
      dict_get (productos (fst (snd (actualizar_producto L self k (Some q) None w)))) k
        = Some (p\<lparr>cantidad := q\<rparr>)
    \<and> dict_get (productos (fst (snd (actualizar_producto L self k None (Some x) w)))) k
        = Some (p\<lparr>precio := x\<rparr>)
    \<and> (\<forall>k'. k' \<noteq> k \<longrightarrow>
          dict_get (productos (fst (snd (actualizar_producto L self k c y w)))) k'
            = dict_get (productos self) k')
    \<and> map fst (productos (fst (snd (actualizar_producto L self k c y w))))
        = map fst (productos self)
    \<and> dict_get (productos (fst (snd (actualizar_producto1 L self k (Some q) None w)))) k
        = Some (p\<lparr>cantidad := q\<rparr>)
    \<and> dict_get (productos (fst (snd (actualizar_producto1 L self k None (Some x) w)))) k
        = Some (p\<lparr>precio := x\<rparr>)
    \<and> (\<forall>k'. k' \<noteq> k \<longrightarrow>
          dict_get (productos (fst (snd (actualizar_producto1 L self k c y w)))) k'
            = dict_get (productos self) k')
    \<and> map fst (productos (fst (snd (actualizar_producto1 L self k c y w))))
        = map fst (productos self))
   \<and> (dict_get (productos self) k = None \<longrightarrow>
        actualizar_producto L self k c y w = (Return False, self, w)
      \<and> fst (actualizar_producto1 L self k c y w) = Return False
      \<and> fst (snd (actualizar_producto1 L self k c y w)) = self
      \<and> files (snd (snd (actualizar_producto1 L self k c y w))) = files w)"
proof (intro conjI impI)
  assume "dict_get (productos self) k = None"
  then show "actualizar_producto L self k c y w = (Return False, self, w)"
    and "fst (actualizar_producto1 L self k c y w) = Return False"
    and "fst (snd (actualizar_producto1 L self k c y w)) = self"
    and "files (snd (snd (actualizar_producto1 L self k c y w))) = files w"
    by (simp_all add: actualizar_producto_def actualizar_producto1_def print_def)
next
  assume g: "dict_get (productos self) k = Some p"
  then have "dict_in k (productos self)"
    by (rule dict_get_in)
  then have keys: "map fst (dict_set k v (productos self)) = map fst (productos self)" for v
    by (simp add: map_fst_dict_set dict_in_keys)
  from g show "dict_get (productos (fst (snd (actualizar_producto L self k (Some q) None w)))) k
        = Some (p\<lparr>cantidad := q\<rparr>)"
    by (simp add: actualizar_producto_state dict_get_set actualizar_cantidad)
  from g show "dict_get (productos (fst (snd (actualizar_producto L self k None (Some x) w)))) k
        = Some (p\<lparr>precio := x\<rparr>)"
    by (simp add: actualizar_producto_state dict_get_set actualizar_precio)
  from g show "\<forall>k'. k' \<noteq> k \<longrightarrow>
          dict_get (productos (fst (snd (actualizar_producto L self k c y w)))) k'
            = dict_get (productos self) k'"
    by (simp add: actualizar_producto_state dict_get_set)
  from g keys show "map fst (productos (fst (snd (actualizar_producto L self k c y w))))
        = map fst (productos self)"
    by (simp add: actualizar_producto_state)
  from g show "dict_get (productos (fst (snd (actualizar_producto1 L self k (Some q) None w)))) k
        = Some (p\<lparr>cantidad := q\<rparr>)"
    by (simp add: actualizar_producto1_state dict_get_set actualizar_cantidad)
  from g show "dict_get (productos (fst (snd (actualizar_producto1 L self k None (Some x) w)))) k
        = Some (p\<lparr>precio := x\<rparr>)"
    by (simp add: actualizar_producto1_state dict_get_set actualizar_precio)
  from g show "\<forall>k'. k' \<noteq> k \<longrightarrow>
          dict_get (productos (fst (snd (actualizar_producto1 L self k c y w)))) k'
            = dict_get (productos self) k'"
    by (simp add: actualizar_producto1_state dict_get_set)
  from g keys show "map fst (productos (fst (snd (actualizar_producto1 L self k c y w))))
        = map fst (productos self)"
    by (simp add: actualizar_producto1_state)
qed

theorem actualizar_producto_parcial_witness:
  "dict_get (productos widgets) (str ''W1'') = Some widget_a
   \<and> dict_get (productos (fst (snd (actualizar_producto (lib_w []) widgets (str ''W1'') (Some 5) None world0)))) (str ''W1'')
       = Some (widget_a\<lparr>cantidad := 5\<rparr>)
   \<and> dict_get (productos (fst (snd (actualizar_producto1 (lib_w []) widgets (str ''W1'') None (Some 7) world0)))) (str ''W1'')
       = Some (widget_a\<lparr>precio := 7\<rparr>)
   \<and> dict_get (productos (fst (snd (actualizar_producto (lib_w []) widgets (str ''W1'') (Some 5) None world0)))) (str ''G1'')
       = Some gadget_b
   \<and> dict_get (productos widgets) (str ''T1'') = None
   \<and> actualizar_producto (lib_w []) widgets (str ''T1'') (Some 5) None world0 = (Return False, widgets, world0)
   \<and> files (snd (snd (actualizar_producto1 (lib_w []) widgets (str ''T1'') (Some 5) None world0))) = files world0"
proof -
  have a: "dict_get (productos widgets) (str ''W1'') = Some widget_a"
    by (simp add: dict_get_def widgets_def)
  have b: "dict_get (productos widgets) (str ''T1'') = None"
    by (simp add: dict_get_def widgets_def)
  have c: "dict_get (productos widgets) (str ''G1'') = Some gadget_b"
    by (simp add: dict_get_def widgets_def)
  from a b c
    actualizar_producto_parcial[of widgets "str ''W1''" widget_a "lib_w []" 5 world0 7 "Some 5" None]
    actualizar_producto_parcial[of widgets "str ''T1''" widget_a "lib_w []" 5 world0 7 "Some 5" None]
  show ?thesis by simp
qed

section \<open>Adding\<close>

lemma agregar_producto_presente:
  "dict_in (id_producto p) (productos self) \<Longrightarrow> agregar_producto L self p w = (Return False, self, w)"
  by (simp add: agregar_producto_def)

lemma agregar_producto1_presente:
  "dict_in (id_producto p) (productos self) \<Longrightarrow>
     agregar_producto1 L self p w = (Return False, self, print (ProductoYaExiste (id_producto p)) w)"
  by (simp add: agregar_producto1_def)

lemma dict_in_after_agregar:
  "dict_in (id_producto p) (productos (fst (snd (agregar_producto L self p w))))"
  by (simp add: agregar_producto_state dict_in_def dict_get_set)

lemma dict_in_after_agregar1:
  "dict_in (id_producto p) (productos (fst (snd (agregar_producto1 L self p w))))"
  by (simp add: agregar_producto1_state dict_in_def dict_get_set)

text \<open>
  C5, as amended: in both programs \<^verbatim>\<open>agregar_producto\<close> with an id that is present
  returns \<^verbatim>\<open>False\<close>, leaves the store as it is and writes no file. With a fresh id it
  puts the product at the end of the dict and, when no file operation of the save
  fails, returns \<^verbatim>\<open>True\<close> and leaves the whole dict in the file. A second call
  with the same id returns \<^verbatim>\<open>False\<close> and leaves the store as the first call left it.
\<close>

theorem agregar_producto_unico:
  "(dict_in (id_producto p) (productos self) \<longrightarrow>
      agregar_producto L self p w = (Return False, self, w)
    \<and> fst (agregar_producto1 L self p w) = Return False
    \<and> fst (snd (agregar_producto1 L self p w)) = self
    \<and> files (snd (snd (agregar_producto1 L self p w))) = files w)
   \<and> (\<not> dict_in (id_producto p) (productos self) \<longrightarrow>
        fst (snd (agregar_producto L self p w))
          = self\<lparr>productos := productos self @ [(id_producto p, p)]\<rparr>
      \<and> fst (snd (agregar_producto1 L self p w))
          = self\<lparr>productos := productos self @ [(id_producto p, p)]\<rparr>
      \<and> (guardar_sin_fallos self w \<longrightarrow>
            fst (agregar_producto L self p w) = Return True
          \<and> files (snd (snd (agregar_producto L self p w))) (archivo self)
              = Some (texto L (self\<lparr>productos := productos self @ [(id_producto p, p)]\<rparr>)))
      \<and> (guardar1_sin_fallos self w \<longrightarrow>
            fst (agregar_producto1 L self p w) = Return True
          \<and> files (snd (snd (agregar_producto1 L self p w))) (archivo self)
              = Some (json_dumps L (documento (self\<lparr>productos := productos self @ [(id_producto p, p)]\<rparr>)))))
   \<and> (id_producto p' = id_producto p \<longrightarrow>
        (case agregar_producto L self p w of
           (r, self', w') \<Rightarrow> agregar_producto L self' p' w' = (Return False, self', w'))
      \<and> (case agregar_producto1 L self p w of
           (r, self', w') \<Rightarrow>
             fst (agregar_producto1 L self' p' w') = Return False
           \<and> fst (snd (agregar_producto1 L self' p' w')) = self'
           \<and> files (snd (snd (agregar_producto1 L self' p' w'))) = files w'))"
proof (intro conjI impI)
  assume "dict_in (id_producto p) (productos self)"
  then show "agregar_producto L self p w = (Return False, self, w)"
    and "fst (agregar_producto1 L self p w) = Return False"
    and "fst (snd (agregar_producto1 L self p w)) = self"
    and "files (snd (snd (agregar_producto1 L self p w))) = files w"
    by (simp_all add: agregar_producto_presente agregar_producto1_presente print_def)
next
  assume fresh: "\<not> dict_in (id_producto p) (productos self)"
  let ?self' = "self\<lparr>productos := productos self @ [(id_producto p, p)]\<rparr>"
  from fresh show "fst (snd (agregar_producto L self p w)) = ?self'"
    by (simp add: agregar_producto_state dict_set_notin)
  from fresh show "fst (snd (agregar_producto1 L self p w)) = ?self'"
    by (simp add: agregar_producto1_state dict_set_notin)
  {
    assume "guardar_sin_fallos self w"
    then have "guardar_sin_fallos ?self' w"
      by (simp add: guardar_sin_fallos_def)
    then have "guardar_inventario L ?self' w
                 = (Return (), w\<lparr>files := (files w)(archivo ?self' \<mapsto> texto L ?self')\<rparr>)"
      by (rule guardar_inventario_ok)
    with fresh show "fst (agregar_producto L self p w) = Return True"
      and "files (snd (snd (agregar_producto L self p w))) (archivo self) = Some (texto L ?self')"
      by (simp_all add: agregar_producto_def dict_set_notin Let_def)
  }
  {
    assume "guardar1_sin_fallos self w"
    then have "guardar1_sin_fallos ?self' w"
      by (simp add: guardar1_sin_fallos_def temp_file_def)
    then have "guardar_inventario1 L ?self' w
                 = (Return (), w\<lparr>files := (files w)(temp_file ?self' := None,
                                     archivo ?self' \<mapsto> json_dumps L (documento ?self'))\<rparr>)"
      by (rule guardar_inventario1_ok)
    with fresh show "fst (agregar_producto1 L self p w) = Return True"
      and "files (snd (snd (agregar_producto1 L self p w))) (archivo self)
             = Some (json_dumps L (documento ?self'))"
      by (simp_all add: agregar_producto1_def dict_set_notin Let_def)
  }
next
  assume same: "id_producto p' = id_producto p"
  show "case agregar_producto L self p w of
           (r, self', w') \<Rightarrow> agregar_producto L self' p' w' = (Return False, self', w')"
    using dict_in_after_agregar[of p L self w] same
    by (auto simp: agregar_producto_presente split: prod.splits)
  show "case agregar_producto1 L self p w of
           (r, self', w') \<Rightarrow>
             fst (agregar_producto1 L self' p' w') = Return False
           \<and> fst (snd (agregar_producto1 L self' p' w')) = self'
           \<and> files (snd (snd (agregar_producto1 L self' p' w'))) = files w'"
    using dict_in_after_agregar1[of p L self w] same
    by (auto simp: agregar_producto1_presente print_def split: prod.splits)
qed

lemma tuerca_nueva: "\<not> dict_in (id_producto tuerca) (productos widgets)"
  by (simp add: dict_in_def dict_get_def ejemplos)

lemma widget_presente: "dict_in (id_producto widget_a) (productos widgets)"
  by (simp add: dict_in_def dict_get_def ejemplos)

lemma guardar_inventario1_sin_permiso:
  "guardar_inventario1 L self sin_permiso
     = (Raise PermissionError, print (ErrorDePermisosAlGuardar PermissionError) sin_permiso)"
  by (simp add: guardar_inventario1_def guardar_inventario1_try_def open_w_def sin_permiso_def
        world0_def os_path_exists_def print_def)

lemma guardar_inventario_sin_permiso:
  "guardar_inventario L self sin_permiso
     = (Return (), print (ErrorAlGuardar PermissionError) sin_permiso)"
  by (simp add: guardar_inventario_def open_w_def sin_permiso_def world0_def)

text \<open>
  C5 as stated fails where the save fails: with a fresh id and a file that cannot be
  opened for writing, the second program returns \<^verbatim>\<open>False\<close>, and the first program
  returns \<^verbatim>\<open>True\<close> with no file written.
\<close>

theorem agregar_producto_unico_counterexample:
  "\<not> dict_in (id_producto tuerca) (productos widgets)
   \<and> fst (agregar_producto1 (lib_w []) widgets tuerca sin_permiso) = Return False
   \<and> fst (agregar_producto (lib_w []) widgets tuerca sin_permiso) = Return True
   \<and> files (snd (snd (agregar_producto (lib_w []) widgets tuerca sin_permiso))) (archivo widgets)
       = None"
proof -
  have "files sin_permiso (archivo widgets) = None"
    by (simp add: sin_permiso_def world0_def)
  with tuerca_nueva show ?thesis
    by (simp add: agregar_producto1_def agregar_producto_def guardar_inventario1_sin_permiso
          guardar_inventario_sin_permiso Let_def print_def)
qed

theorem agregar_producto_unico_witness:
  "dict_in (id_producto widget_a) (productos widgets)
   \<and> agregar_producto (lib_w []) widgets widget_a world0 = (Return False, widgets, world0)
   \<and> fst (agregar_producto1 (lib_w []) widgets widget_a world0) = Return False
   \<and> \<not> dict_in (id_producto tuerca) (productos widgets)
   \<and> guardar_sin_fallos widgets world0 \<and> guardar1_sin_fallos widgets world0
   \<and> fst (agregar_producto (lib_w []) widgets tuerca world0) = Return True
   \<and> files (snd (snd (agregar_producto (lib_w []) widgets tuerca world0))) (archivo widgets)
       = Some (texto (lib_w []) (widgets\<lparr>productos := productos widgets @ [(id_producto tuerca, tuerca)]\<rparr>))
   \<and> fst (agregar_producto1 (lib_w []) widgets tuerca world0) = Return True
   \<and> id_producto (tuerca\<lparr>cantidad := 1\<rparr>) = id_producto tuerca
   \<and> (case agregar_producto (lib_w []) widgets tuerca world0 of
         (r, self', w') \<Rightarrow>
           agregar_producto (lib_w []) self' (tuerca\<lparr>cantidad := 1\<rparr>) w' = (Return False, self', w'))"
proof -
  have a: "guardar_sin_fallos widgets world0"
    by (simp add: guardar_sin_fallos_def world0_def)
  have b: "guardar1_sin_fallos widgets world0"
    by (simp add: guardar1_sin_fallos_def world0_def)
  have c: "id_producto (tuerca\<lparr>cantidad := 1\<rparr>) = id_producto tuerca"
    by simp
  from a b c tuerca_nueva widget_presente
    agregar_producto_unico[of widget_a widgets "lib_w []" world0 "tuerca\<lparr>cantidad := 1\<rparr>"]
    agregar_producto_unico[of tuerca widgets "lib_w []" world0 "tuerca\<lparr>cantidad := 1\<rparr>"]
  show ?thesis by simp
qed

section \<open>A save that fails\<close>

text \<open>
  C2, as amended: in the second program, when the change in memory has been made and
  \<^verbatim>\<open>guardar_inventario\<close> then raises, the operation catches the exception, prints it
  and returns \<^verbatim>\<open>False\<close>; the change in memory stays.
\<close>

theorem guardar_falla_devuelve_False:
  "(\<not> dict_in (id_producto p) (productos self)
      \<and> guardar_inventario1 L (self\<lparr>productos := dict_set (id_producto p) p (productos self)\<rparr>) w
          = (Raise e, w') \<longrightarrow>
      agregar_producto1 L self p w
        = (Return False, self\<lparr>productos := dict_set (id_producto p) p (productos self)\<rparr>,
           print (ErrorAlAgregar e) w'))
   \<and> (dict_in k (productos self)
      \<and> guardar_inventario1 L (self\<lparr>productos := dict_del k (productos self)\<rparr>) w
          = (Raise e, w') \<longrightarrow>
      eliminar_producto1 L self k w
        = (Return False, self\<lparr>productos := dict_del k (productos self)\<rparr>,
           print (ErrorAlEliminar e) w'))
   \<and> (dict_get (productos self) k = Some p0
      \<and> guardar_inventario1 L (self\<lparr>productos := dict_set k (actualizar c x p0) (productos self)\<rparr>) w
          = (Raise e, w') \<longrightarrow>
      actualizar_producto1 L self k c x w
        = (Return False, self\<lparr>productos := dict_set k (actualizar c x p0) (productos self)\<rparr>,
           print (ErrorAlActualizar e) w'))"
  by (simp add: agregar_producto1_def eliminar_producto1_def actualizar_producto1_def Let_def)

text \<open>
  C2 as stated fails: the \<^verbatim>\<open>PermissionError\<close> of the save does not reach the caller of
  \<^verbatim>\<open>agregar_producto\<close>, which gets \<^verbatim>\<open>False\<close>.
\<close>

theorem guardar_falla_devuelve_False_counterexample:
  "\<not> dict_in (id_producto tuerca) (productos widgets)
   \<and> fst (guardar_inventario1 (lib_w [])
            (widgets\<lparr>productos := dict_set (id_producto tuerca) tuerca (productos widgets)\<rparr>)
            sin_permiso) = Raise PermissionError
   \<and> fst (agregar_producto1 (lib_w []) widgets tuerca sin_permiso) = Return False
   \<and> dict_get (productos (fst (snd (agregar_producto1 (lib_w []) widgets tuerca sin_permiso))))
        (id_producto tuerca) = Some tuerca"
  using tuerca_nueva
  by (simp add: agregar_producto1_def guardar_inventario1_sin_permiso Let_def dict_get_set)

theorem guardar_falla_devuelve_False_witness:
  "\<not> dict_in (id_producto tuerca) (productos widgets)
   \<and> dict_in (str ''W1'') (productos widgets)
   \<and> dict_get (productos widgets) (str ''W1'') = Some widget_a
   \<and> agregar_producto1 (lib_w []) widgets tuerca sin_permiso
       = (Return False,
          widgets\<lparr>productos := dict_set (id_producto tuerca) tuerca (productos widgets)\<rparr>,
          print (ErrorAlAgregar PermissionError)
            (print (ErrorDePermisosAlGuardar PermissionError) sin_permiso))
   \<and> eliminar_producto1 (lib_w []) widgets (str ''W1'') sin_permiso
       = (Return False, widgets\<lparr>productos := dict_del (str ''W1'') (productos widgets)\<rparr>,
          print (ErrorAlEliminar PermissionError)
            (print (ErrorDePermisosAlGuardar PermissionError) sin_permiso))
   \<and> actualizar_producto1 (lib_w []) widgets (str ''W1'') (Some 5) None sin_permiso
       = (Return False,
          widgets\<lparr>productos := dict_set (str ''W1'') (actualizar (Some 5) None widget_a) (productos widgets)\<rparr>,
          print (ErrorAlActualizar PermissionError)
            (print (ErrorDePermisosAlGuardar PermissionError) sin_permiso))"
proof -
  have a: "dict_in (str ''W1'') (productos widgets)"
    using widget_presente by (simp add: widget_a_def)
  have b: "dict_get (productos widgets) (str ''W1'') = Some widget_a"
    by (simp add: dict_get_def widgets_def)
  from a b tuerca_nueva
    guardar_falla_devuelve_False[of tuerca widgets "lib_w []" sin_permiso PermissionError
      "print (ErrorDePermisosAlGuardar PermissionError) sin_permiso" "str ''W1''" widget_a "Some 5" None]
  show ?thesis by (simp add: guardar_inventario1_sin_permiso)
qed

section \<open>Loading the JSON file\<close>

lemma inventario_init1_try:
  "fst (inventario_init1 L path w) =
     (case cargar_inventario1_try L \<lparr>productos = [], archivo = path\<rparr> w of
        Return None \<Rightarrow> Return \<lparr>productos = [], archivo = path\<rparr>
      | Return (Some d) \<Rightarrow> Return \<lparr>productos = d, archivo = path\<rparr>
      | Untyped \<Rightarrow> Untyped
      | Raise e \<Rightarrow>
          if e = PermissionError then Raise PermissionError
          else Return \<lparr>productos = [], archivo = path\<rparr>)"
  by (simp add: inventario_init1_def cargar_inventario1_def split: result.splits option.splits)

lemma cargar_inventario1_try_absent:
  "\<not> os_path_exists (archivo self) w \<Longrightarrow> cargar_inventario1_try L self w = Return None"
  by (simp add: cargar_inventario1_try_def)

lemma cargar_inventario1_try_fault:
  "os_path_exists (archivo self) w \<Longrightarrow> fault w OpenR (archivo self) = Some e \<Longrightarrow>
     cargar_inventario1_try L self w = Raise e"
  by (simp add: cargar_inventario1_try_def open_r_def)

lemma cargar_inventario1_try_corrupt:
  "fault w OpenR (archivo self) = None \<Longrightarrow> files w (archivo self) = Some s \<Longrightarrow>
     json_loads L s = None \<Longrightarrow> cargar_inventario1_try L self w = Raise JSONDecodeError"
  by (simp add: cargar_inventario1_try_def open_r_def os_path_exists_def)

text \<open>
  C7, as amended: in the second program the constructor returns normally with an empty
  \<^verbatim>\<open>productos\<close> when the file is absent, when its text is not JSON, and when the load
  fails with any exception other than \<^verbatim>\<open>PermissionError\<close> (a failure of
  \<^verbatim>\<open>open\<close> included); a \<^verbatim>\<open>PermissionError\<close> is printed and raised again, out of the
  constructor.
\<close>

theorem inventario_init1_degrada:
  "(\<not> os_path_exists path w \<longrightarrow>
      inventario_init1 L path w = (Return \<lparr>productos = [], archivo = path\<rparr>, w))
   \<and> (fault w OpenR path = None \<and> files w path = Some s \<and> json_loads L s = None \<longrightarrow>
        fst (inventario_init1 L path w) = Return \<lparr>productos = [], archivo = path\<rparr>)
   \<and> (cargar_inventario1_try L \<lparr>productos = [], archivo = path\<rparr> w = Raise e
        \<and> e \<noteq> PermissionError \<longrightarrow>
        fst (inventario_init1 L path w) = Return \<lparr>productos = [], archivo = path\<rparr>)
   \<and> (os_path_exists path w \<and> fault w OpenR path = Some e' \<longrightarrow>
        fst (inventario_init1 L path w)
          = (if e' = PermissionError then Raise PermissionError
             else Return \<lparr>productos = [], archivo = path\<rparr>))
   \<and> (os_path_exists path w \<and> fault w OpenR path = Some PermissionError \<longrightarrow>
        inventario_init1 L path w
          = (Raise PermissionError, print (ErrorDePermisosLeer path PermissionError) w))"
proof (intro conjI impI)
  assume "os_path_exists path w \<and> fault w OpenR path = Some PermissionError"
  then show "inventario_init1 L path w
          = (Raise PermissionError, print (ErrorDePermisosLeer path PermissionError) w)"
    by (simp add: inventario_init1_def cargar_inventario1_def cargar_inventario1_try_fault)
next
  assume "\<not> os_path_exists path w"
  then show "inventario_init1 L path w = (Return \<lparr>productos = [], archivo = path\<rparr>, w)"
    by (simp add: inventario_init1_def cargar_inventario1_def cargar_inventario1_try_absent)
next
  assume "fault w OpenR path = None \<and> files w path = Some s \<and> json_loads L s = None"
  then have "cargar_inventario1_try L \<lparr>productos = [], archivo = path\<rparr> w = Raise JSONDecodeError"
    by (simp add: cargar_inventario1_try_corrupt)
  then show "fst (inventario_init1 L path w) = Return \<lparr>productos = [], archivo = path\<rparr>"
    by (simp add: inventario_init1_try)
next
  assume "cargar_inventario1_try L \<lparr>productos = [], archivo = path\<rparr> w = Raise e
            \<and> e \<noteq> PermissionError"
  then show "fst (inventario_init1 L path w) = Return \<lparr>productos = [], archivo = path\<rparr>"
    by (simp add: inventario_init1_try)
next
  assume "os_path_exists path w \<and> fault w OpenR path = Some e'"
  then have "cargar_inventario1_try L \<lparr>productos = [], archivo = path\<rparr> w = Raise e'"
    by (simp add: cargar_inventario1_try_fault)
  then show "fst (inventario_init1 L path w)
          = (if e' = PermissionError then Raise PermissionError
             else Return \<lparr>productos = [], archivo = path\<rparr>)"
    by (simp add: inventario_init1_try)
qed

lemma existe_ilegible: "os_path_exists (str ''inventario.json'') (ilegible s e)"
  by (simp add: os_path_exists_def ilegible_def con_archivo_def world0_def)

lemma fault_ilegible: "fault (ilegible s e) OpenR (str ''inventario.json'') = Some e"
  by (simp add: ilegible_def)

text \<open>
  C7 as stated fails: when the file exists and may not be read, the
  \<^verbatim>\<open>PermissionError\<close> leaves the constructor.
\<close>

theorem inventario_init1_degrada_counterexample:
  "os_path_exists (str ''inventario.json'') (ilegible (str ''{}'') PermissionError)
   \<and> fst (inventario_init1 (lib_w []) (str ''inventario.json'') (ilegible (str ''{}'') PermissionError))
       = Raise PermissionError"
  using existe_ilegible[of "str ''{}''" PermissionError] fault_ilegible[of "str ''{}''" PermissionError]
  by (simp add: inventario_init1_try cargar_inventario1_try_fault)

theorem inventario_init1_degrada_witness:
  "\<not> os_path_exists (str ''inventario.json'') world0
   \<and> inventario_init1 (lib_w []) (str ''inventario.json'') world0
       = (Return \<lparr>productos = [], archivo = str ''inventario.json''\<rparr>, world0)
   \<and> fault (con_archivo (str ''{roto'')) OpenR (str ''inventario.json'') = None
   \<and> files (con_archivo (str ''{roto'')) (str ''inventario.json'') = Some (str ''{roto'')
   \<and> json_loads (lib_w []) (str ''{roto'') = None
   \<and> cargar_inventario1_try (lib_w []) \<lparr>productos = [], archivo = str ''inventario.json''\<rparr>
        (con_archivo (str ''{roto'')) = Raise JSONDecodeError
   \<and> fst (inventario_init1 (lib_w []) (str ''inventario.json'') (con_archivo (str ''{roto'')))
       = Return \<lparr>productos = [], archivo = str ''inventario.json''\<rparr>
   \<and> os_path_exists (str ''inventario.json'') (ilegible (str ''{}'') OSError)
   \<and> fault (ilegible (str ''{}'') OSError) OpenR (str ''inventario.json'') = Some OSError
   \<and> fst (inventario_init1 (lib_w []) (str ''inventario.json'') (ilegible (str ''{}'') OSError))
       = Return \<lparr>productos = [], archivo = str ''inventario.json''\<rparr>
   \<and> fst (inventario_init1 (lib_w []) (str ''inventario.json'') (ilegible (str ''{}'') PermissionError))
       = Raise PermissionError"
proof -
  have a: "\<not> os_path_exists (str ''inventario.json'') world0"
    by (simp add: os_path_exists_def world0_def)
  have b: "fault (con_archivo (str ''{roto'')) OpenR (str ''inventario.json'') = None"
    and c: "files (con_archivo (str ''{roto'')) (str ''inventario.json'') = Some (str ''{roto'')"
    by (simp_all add: con_archivo_def world0_def)
  have d: "json_loads (lib_w []) (str ''{roto'') = None"
    by (simp add: lib_w_def)
  have e: "cargar_inventario1_try (lib_w []) \<lparr>productos = [], archivo = str ''inventario.json''\<rparr>
        (con_archivo (str ''{roto'')) = Raise JSONDecodeError"
    using b c d by (simp add: cargar_inventario1_try_corrupt)
  note t = inventario_init1_degrada[of "str ''inventario.json''" _ "lib_w []" "str ''{roto''" JSONDecodeError]
  from a b c d e
    t[of world0 OSError] t[of "con_archivo (str ''{roto'')" OSError]
    t[of "ilegible (str ''{}'') OSError" OSError] t[of "ilegible (str ''{}'') PermissionError" PermissionError]
    existe_ilegible[of "str ''{}''"] fault_ilegible[of "str ''{}''"]
  show ?thesis by simp
qed

section \<open>The save of the JSON file, step by step\<close>

lemma guardar_inventario1_killed_2:
  assumes "guardar1_sin_fallos self w"
  shows "files (guardar_inventario1_killed 2 L self w) (archivo self) = files w (archivo self)"
  using assms temp_file_neq[of self]
  by (simp add: guardar_inventario1_killed_def guardar_inventario1_try_def guardar1_sin_fallos_def
        open_w_def write_text_def)

lemma guardar_inventario1_killed_3:
  assumes "guardar1_sin_fallos self w"
  shows "files (guardar_inventario1_killed 3 L self w) (archivo self) = None"
  using assms temp_file_neq[of self]
  by (auto simp: guardar_inventario1_killed_def guardar_inventario1_try_def guardar1_sin_fallos_def
        open_w_def write_text_def os_path_exists_def os_remove_def split: option.splits)

lemma guardar_inventario1_killed_4:
  "guardar_inventario1_killed 4 L self w = snd (run_steps (guardar_inventario1_try L self) w)"
  by (simp add: guardar_inventario1_killed_def guardar_inventario1_try_def)

text \<open>
  C4 fails on the code: \<^verbatim>\<open>guardar_inventario\<close> of the second program removes the
  file before it renames the temporary file. A process killed after the temporary file
  is written (two statements) leaves the old file; killed after the removal (three
  statements) it leaves no file at all.
\<close>

theorem guardar_inventario1_no_atomico:
  "files (con_archivo (str ''{}'')) (archivo widgets1) = Some (str ''{}'')
   \<and> files (guardar_inventario1_killed 2 (lib_w []) widgets1 (con_archivo (str ''{}''))) (archivo widgets1)
       = Some (str ''{}'')
   \<and> files (guardar_inventario1_killed 3 (lib_w []) widgets1 (con_archivo (str ''{}''))) (archivo widgets1)
       = None"
proof -
  have a: "guardar1_sin_fallos widgets1 (con_archivo (str ''{}''))"
    by (simp add: guardar1_sin_fallos_def con_archivo_def world0_def)
  have b: "files (con_archivo (str ''{}'')) (archivo widgets1) = Some (str ''{}'')"
    by (simp add: con_archivo_def world0_def widgets1_def)
  from b guardar_inventario1_killed_2[OF a] guardar_inventario1_killed_3[OF a]
  show ?thesis by simp
qed

section \<open>Loading the text file\<close>

lemma length_4E:
  assumes "length xs = 4"
  obtains a b c d where "xs = [a, b, c, d]"
proof -
  from assms obtain a r1 where "xs = a # r1" "length r1 = 3"
    by (cases xs) auto
  moreover then obtain b r2 where "r1 = b # r2" "length r2 = 2"
    by (cases r1) auto
  moreover then obtain c r3 where "r2 = c # r3" "length r3 = 1"
    by (cases r2) auto
  moreover then obtain d where "r3 = [d]"
    by (cases r3) auto
  ultimately show thesis using that by simp
qed

lemma producto_de_linea_cases:
  "producto_de_linea L l = Raise ValueError \<or> (\<exists>p. producto_de_linea L l = Return p)"
  by (simp add: producto_de_linea_def split: list.splits option.splits)

lemma producto_de_linea_malformada:
  "(producto_de_linea L l = Raise ValueError) = linea_malformada L l"
proof (cases "length (py_split bar (py_strip l)) = 4")
  case True
  then obtain a b c d where "py_split bar (py_strip l) = [a, b, c, d]"
    by (rule length_4E)
  then show ?thesis
    by (simp add: producto_de_linea_def linea_malformada_def split: option.splits)
next
  case False
  then have "linea_malformada L l"
    by (simp add: linea_malformada_def Let_def)
  moreover from False have "producto_de_linea L l = Raise ValueError"
    by (auto simp: producto_de_linea_def split: list.splits)
  ultimately show ?thesis by simp
qed

lemma cargar_lineas_buenas:
  "list_all (\<lambda>l. \<not> linea_malformada L l) ls \<Longrightarrow> fst (cargar_lineas L ls d) = Return ()"
proof (induction ls arbitrary: d)
  case Nil
  then show ?case by simp
next
  case (Cons l ls)
  then have "producto_de_linea L l \<noteq> Raise ValueError"
    by (simp add: producto_de_linea_malformada)
  then obtain p where "producto_de_linea L l = Return p"
    using producto_de_linea_cases[of L l] by blast
  with Cons show ?case by simp
qed

lemma cargar_lineas_mala:
  assumes "list_all (\<lambda>l. \<not> linea_malformada L l) antes" and "linea_malformada L mala"
  shows "cargar_lineas L (antes @ mala # despues) d
           = (Raise ValueError, snd (cargar_lineas L antes d))"
  using assms
proof (induction antes arbitrary: d)
  case Nil
  then have "producto_de_linea L mala = Raise ValueError"
    by (simp add: producto_de_linea_malformada)
  then show ?case by simp
next
  case (Cons l ls)
  then have "producto_de_linea L l \<noteq> Raise ValueError"
    by (simp add: producto_de_linea_malformada)
  then obtain p where "producto_de_linea L l = Return p"
    using producto_de_linea_cases[of L l] by blast
  with Cons show ?case by simp
qed

lemma primera_mala:
  assumes "list_ex P ls"
  obtains antes mala despues
  where "ls = antes @ mala # despues" and "list_all (\<lambda>l. \<not> P l) antes" and "P mala"
proof -
  from assms have "\<exists>x\<in>set ls. P x"
    by (simp add: list_ex_iff)
  then obtain antes mala despues where "ls = antes @ mala # despues" "P mala"
    "\<forall>y\<in>set antes. \<not> P y"
    unfolding split_list_first_prop_iff by blast
  then show thesis using that by (simp add: list_all_iff)
qed

lemma cargar_inventario_lineas:
  assumes "files w path = Some s" and "fault w OpenR path = None"
    and "cargar_lineas L (file_lines s) [] = (Raise ValueError, d)"
  shows "cargar_inventario L \<lparr>productos = [], archivo = path\<rparr> w
           = (Raise ValueError, \<lparr>productos = d, archivo = path\<rparr>, w)"
    and "inventario_init L path w = (Raise ValueError, w)"
  using assms
  by (simp_all add: inventario_init_def cargar_inventario_def os_path_exists_def open_r_def)

text \<open>
  C3, as amended: in the first program, when the file can be read and one of its lines
  is malformed, the \<^verbatim>\<open>ValueError\<close> of the first such line is neither caught nor
  printed: \<^verbatim>\<open>cargar_inventario\<close> raises it, with the products of the lines before in
  \<^verbatim>\<open>self.productos\<close>, and so does the constructor, which leaves no store; the world
  is as it was.
\<close>

theorem cargar_inventario_linea_malformada:
  "(files w path = Some s \<and> fault w OpenR path = None
      \<and> list_ex (linea_malformada L) (file_lines s) \<longrightarrow>
      inventario_init L path w = (Raise ValueError, w))
   \<and> (files w path = Some s \<and> fault w OpenR path = None
      \<and> file_lines s = antes @ mala # despues
      \<and> list_all (\<lambda>l. \<not> linea_malformada L l) antes \<and> linea_malformada L mala \<longrightarrow>
        fst (cargar_lineas L antes []) = Return ()
      \<and> cargar_inventario L \<lparr>productos = [], archivo = path\<rparr> w
          = (Raise ValueError,
             \<lparr>productos = snd (cargar_lineas L antes []), archivo = path\<rparr>, w)
      \<and> inventario_init L path w = (Raise ValueError, w))"
proof (intro conjI impI)
  assume a: "files w path = Some s \<and> fault w OpenR path = None
      \<and> list_ex (linea_malformada L) (file_lines s)"
  then obtain antes mala despues where "file_lines s = antes @ mala # despues"
    and "list_all (\<lambda>l. \<not> linea_malformada L l) antes" and "linea_malformada L mala"
    using primera_mala[of "linea_malformada L" "file_lines s"] by blast
  then have "cargar_lineas L (file_lines s) []
               = (Raise ValueError, snd (cargar_lineas L antes []))"
    by (simp add: cargar_lineas_mala)
  with a show "inventario_init L path w = (Raise ValueError, w)"
    by (simp add: cargar_inventario_lineas)
next
  assume a: "files w path = Some s \<and> fault w OpenR path = None
      \<and> file_lines s = antes @ mala # despues
      \<and> list_all (\<lambda>l. \<not> linea_malformada L l) antes \<and> linea_malformada L mala"
  then have l: "cargar_lineas L (file_lines s) []
               = (Raise ValueError, snd (cargar_lineas L antes []))"
    by (simp add: cargar_lineas_mala)
  from a show "fst (cargar_lineas L antes []) = Return ()"
    by (simp add: cargar_lineas_buenas)
  from a l show "cargar_inventario L \<lparr>productos = [], archivo = path\<rparr> w
          = (Raise ValueError,
             \<lparr>productos = snd (cargar_lineas L antes []), archivo = path\<rparr>, w)"
    by (simp add: cargar_inventario_lineas)
  from a l show "inventario_init L path w = (Raise ValueError, w)"
    by (simp add: cargar_inventario_lineas)
qed

text \<open>
  A quantity that begins with the separator 28 is not read, whatever the library:
  \<^verbatim>\<open>strip\<close> would take that character away, \<^verbatim>\<open>int\<close> does not.
\<close>

lemma int_parse_fs: "int_parse dec ([28] @ str ''3'') = None"
  by (simp add: int_parse_def int_char_def is_c_space_def is_digit_def)

lemma py_strip_fs: "py_strip ([28] @ str ''3'') = str ''3''"
  by (simp add: py_strip_def is_space_def)

lemma linea_fs_malformada: "linea_malformada L linea_fs"
  using int_parse_fs[of "decimal_digit L"]
  by (simp add: linea_malformada_def linea_fs_def py_strip_def is_space_def Let_def)

lemma int_parse_nbsp: "int_parse dec ([160] @ str ''3'' @ [133]) = Some 3"
  by (simp add: int_parse_def int_char_def is_space_def is_c_space_def is_digit_def digit_val_def)

lemmas evaluar_texto =
  producto_de_linea_def py_strip_def is_space_def int_parse_def is_c_space_def int_char_def
  is_digit_def digit_val_def lib_w_def float_parse_w_def decimal_digit_w_def suffix_to_prefix

lemma lineas_texto_malo: "file_lines texto_malo = [linea_w1] @ linea_sin_barras # [linea_g1]"
  by (simp add: file_lines_def texto_malo_def linea_w1_def linea_sin_barras_def linea_g1_def)

lemma producto_linea_w1: "producto_de_linea (lib_w []) linea_w1 = Return widget_a"
  by (simp add: linea_w1_def widget_a_def evaluar_texto)

lemma producto_linea_sin_barras: "producto_de_linea (lib_w []) linea_sin_barras = Raise ValueError"
  by (simp add: linea_sin_barras_def evaluar_texto)

lemma archivo_con_texto:
  "files (con_texto s) (str ''inventario.txt'') = Some s"
  "fault (con_texto s) OpenR (str ''inventario.txt'') = None"
  "os_path_exists (str ''inventario.txt'') (con_texto s)"
  by (simp_all add: con_texto_def world0_def os_path_exists_def)

text \<open>
  C3 as stated fails: on a file whose second line has no bar the constructor raises
  \<^verbatim>\<open>ValueError\<close>, and nothing has been printed.
\<close>

theorem cargar_inventario_linea_malformada_counterexample:
  "files (con_texto texto_malo) (str ''inventario.txt'') = Some texto_malo
   \<and> file_lines texto_malo = [linea_w1, linea_sin_barras, linea_g1]
   \<and> length (py_split bar (py_strip linea_sin_barras)) = 1
   \<and> inventario_init (lib_w []) (str ''inventario.txt'') (con_texto texto_malo)
       = (Raise ValueError, con_texto texto_malo)
   \<and> stdout (con_texto texto_malo) = []"
proof -
  have "length (py_split bar (py_strip linea_sin_barras)) = 1"
    by (simp add: linea_sin_barras_def py_strip_def is_space_def)
  moreover have "stdout (con_texto texto_malo) = []"
    by (simp add: con_texto_def world0_def)
  moreover have "inventario_init (lib_w []) (str ''inventario.txt'') (con_texto texto_malo)
       = (Raise ValueError, con_texto texto_malo)"
    using archivo_con_texto[of texto_malo]
    by (simp add: inventario_init_def cargar_inventario_def open_r_def
          lineas_texto_malo producto_linea_w1 producto_linea_sin_barras)
  ultimately show ?thesis
    using lineas_texto_malo archivo_con_texto[of texto_malo] by simp
qed

theorem cargar_inventario_linea_malformada_witness:
  "files (con_texto texto_malo) (str ''inventario.txt'') = Some texto_malo
   \<and> fault (con_texto texto_malo) OpenR (str ''inventario.txt'') = None
   \<and> list_ex (linea_malformada (lib_w [])) (file_lines texto_malo)
   \<and> file_lines texto_malo = [linea_w1] @ linea_sin_barras # [linea_g1]
   \<and> list_all (\<lambda>l. \<not> linea_malformada (lib_w []) l) [linea_w1]
   \<and> linea_malformada (lib_w []) linea_sin_barras
   \<and> cargar_inventario (lib_w []) \<lparr>productos = [], archivo = str ''inventario.txt''\<rparr>
        (con_texto texto_malo)
       = (Raise ValueError, \<lparr>productos = [(str ''W1'', widget_a)], archivo = str ''inventario.txt''\<rparr>,
          con_texto texto_malo)
   \<and> inventario_init (lib_w []) (str ''inventario.txt'') (con_texto texto_malo)
       = (Raise ValueError, con_texto texto_malo)
   \<and> file_lines texto_fs = [] @ linea_fs # [linea_sin_barras]
   \<and> linea_malformada (lib_w []) linea_fs
   \<and> cargar_inventario (lib_w []) \<lparr>productos = [], archivo = str ''inventario.txt''\<rparr>
        (con_texto texto_fs)
       = (Raise ValueError, \<lparr>productos = [], archivo = str ''inventario.txt''\<rparr>,
          con_texto texto_fs)"
proof -
  have a: "linea_malformada (lib_w []) linea_sin_barras"
    using producto_linea_sin_barras by (simp add: producto_de_linea_malformada)
  have b: "\<not> linea_malformada (lib_w []) linea_w1"
    using producto_linea_w1 by (simp flip: producto_de_linea_malformada)
  have c: "snd (cargar_lineas (lib_w []) [linea_w1] []) = [(str ''W1'', widget_a)]"
    by (simp add: producto_linea_w1) (simp add: widget_a_def)
  have d: "file_lines texto_fs = [] @ linea_fs # [linea_sin_barras]"
    by (simp add: file_lines_def texto_fs_def linea_fs_def linea_sin_barras_def)
  note t = cargar_inventario_linea_malformada[of _ "str ''inventario.txt''" _ "lib_w []"]
  from a b c d lineas_texto_malo linea_fs_malformada[of "lib_w []"]
    archivo_con_texto[of texto_malo] archivo_con_texto[of texto_fs]
    t[of "con_texto texto_malo" texto_malo "[linea_w1]" linea_sin_barras "[linea_g1]"]
    t[of "con_texto texto_fs" texto_fs "[]" linea_fs "[linea_sin_barras]"]
  show ?thesis by simp
qed

section \<open>Text conversions, back and forth\<close>

lemma digit_char_props:
  assumes "d < 10"
  shows "is_digit (digit_char d)" and "digit_val (digit_char d) = d"
  using assms by (simp_all add: is_digit_def digit_val_def digit_char_def)

lemma str_nat_digits: "list_all is_digit (str_nat n)"
proof (induction n rule: str_nat.induct)
  case (1 n)
  show ?case
  proof (cases "n < 10")
    case True
    then show ?thesis
      by (subst str_nat.simps) (simp add: digit_char_props)
  next
    case False
    with 1 show ?thesis
      by (subst str_nat.simps) (simp add: digit_char_props)
  qed
qed

lemma str_nat_not_Nil: "str_nat n \<noteq> []"
  by (subst str_nat.simps) simp

lemma nat_of_digits_append:
  "list_all is_digit ds \<Longrightarrow>
     nat_of_digits acc (ds @ s) = nat_of_digits (foldl (\<lambda>a c. 10 * a + digit_val c) acc ds) s"
  by (induction ds arbitrary: acc) simp_all

lemma foldl_str_nat:
  "foldl (\<lambda>a c. 10 * a + digit_val c) acc (str_nat n) = acc * 10 ^ length (str_nat n) + n"
proof (induction n arbitrary: acc rule: str_nat.induct)
  case (1 n)
  show ?case
  proof (cases "n < 10")
    case True
    then show ?thesis
      by (subst (1 2) str_nat.simps) (simp add: digit_char_props)
  next
    case False
    then have s: "str_nat n = str_nat (n div 10) @ [digit_char (n mod 10)]"
      by (subst str_nat.simps) simp
    from False 1 show ?thesis
      unfolding s by (simp add: digit_char_props algebra_simps)
  qed
qed

lemma nat_of_digits_str_nat: "nat_of_digits 0 (str_nat n) = Some n"
  using nat_of_digits_append[OF str_nat_digits, of 0 n "[]"] by (simp add: foldl_str_nat)

lemma is_digit_not_space: "is_digit c \<Longrightarrow> \<not> is_space c"
  by (simp add: is_digit_def is_space_def Let_def)

lemma is_digit_not_sign: "is_digit c \<Longrightarrow> c \<noteq> 45 \<and> c \<noteq> 43 \<and> c \<noteq> bar"
  by (auto simp: is_digit_def)

lemma py_strip_id:
  assumes "s \<noteq> []" and "\<not> is_space (hd s)" and "\<not> is_space (last s)"
  shows "py_strip s = s"
proof -
  from assms have "dropWhile is_space s = s"
    by (cases s) simp_all
  moreover from assms have "dropWhile is_space (rev s) = rev s"
    by (cases "rev s") (simp_all add: last_rev[symmetric] del: last_rev)
  ultimately show ?thesis by (simp add: py_strip_def)
qed

lemma str_nat_hd_last:
  "is_digit (hd (str_nat n))" "is_digit (last (str_nat n))"
  using str_nat_digits[of n] str_nat_not_Nil[of n]
  by (simp_all add: list_all_iff)

lemma str_int_chars: "list_all (\<lambda>c. c \<noteq> bar \<and> \<not> is_space c) (str_int i)"
proof -
  have "list_all (\<lambda>c. c \<noteq> bar \<and> \<not> is_space c) (str_nat n)" for n
    using str_nat_digits[of n] is_digit_not_space is_digit_not_sign
    by (auto simp: list_all_iff)
  then show ?thesis
    by (simp add: str_int_def is_space_def)
qed

lemma py_strip_no_space:
  assumes "list_all (\<lambda>c. \<not> is_space c) s"
  shows "py_strip s = s"
proof (cases "s = []")
  case True
  then show ?thesis by (simp add: py_strip_def)
next
  case False
  with assms have "\<not> is_space (hd s)" and "\<not> is_space (last s)"
    by (simp_all add: list_all_iff)
  with False show ?thesis by (rule py_strip_id)
qed

lemma is_digit_ascii: "is_digit c \<Longrightarrow> c < 128 \<and> \<not> is_c_space c"
  by (simp add: is_digit_def is_c_space_def)

lemma int_char_ascii: "list_all (\<lambda>c. c < 128) s \<Longrightarrow> map (int_char dec) s = s"
  by (induction s) (simp_all add: int_char_def)

lemma dropWhile_hd: "s \<noteq> [] \<Longrightarrow> \<not> P (hd s) \<Longrightarrow> dropWhile P s = s"
  by (cases s) simp_all

lemma dropWhile_rev_last: "s \<noteq> [] \<Longrightarrow> \<not> P (last s) \<Longrightarrow> rev (dropWhile P (rev s)) = s"
  by (cases s rule: rev_cases) simp_all

lemma str_nat_not_blank: "\<exists>c\<in>set (str_nat n). \<not> is_c_space c"
  using str_nat_hd_last(1)[of n] str_nat_not_Nil[of n] is_digit_ascii
  by (metis hd_in_set)

text \<open>The digits of a natural number are read as they are.\<close>

lemma int_body_str_nat:
  "rev (dropWhile is_c_space (rev (str_nat n))) = str_nat n"
  using str_nat_hd_last(2)[of n] is_digit_ascii
  by (intro dropWhile_rev_last) (auto simp: str_nat_not_Nil)

lemma int_parse_str_int: "int_parse dec (str_int i) = Some i"
proof -
  have ascii: "list_all (\<lambda>c. c < 128) (str_nat n)" for n
    using str_nat_digits[of n] is_digit_ascii by (auto simp: list_all_iff)
  have hd_nat: "\<not> is_c_space (hd (str_nat n))" "hd (str_nat n) \<noteq> 45" "hd (str_nat n) \<noteq> 43" for n
    using str_nat_hd_last(1)[of n] is_digit_ascii is_digit_not_sign by blast+
  show ?thesis
  proof (cases "i < 0")
    case True
    then have s: "str_int i = 45 # str_nat (nat (- i))"
      by (simp add: str_int_def)
    have m: "map (int_char dec) (str_int i) = str_int i"
      unfolding s using ascii[of "nat (- i)"] by (simp add: int_char_ascii int_char_def)
    have d: "dropWhile is_c_space (str_int i) = str_int i"
      unfolding s by (simp add: is_c_space_def)
    from True show ?thesis
      unfolding int_parse_def m d
      by (simp add: s Let_def int_body_str_nat str_nat_not_Nil str_nat_hd_last
            nat_of_digits_str_nat str_nat_not_blank)
  next
    case False
    then have s: "str_int i = str_nat (nat i)"
      by (simp add: str_int_def)
    have m: "map (int_char dec) (str_int i) = str_int i"
      unfolding s using ascii[of "nat i"] by (simp add: int_char_ascii)
    have d: "dropWhile is_c_space (str_int i) = str_int i"
      unfolding s using hd_nat(1)[of "nat i"] by (simp add: dropWhile_hd str_nat_not_Nil)
    from False show ?thesis
      unfolding int_parse_def m d
      by (simp add: s Let_def hd_nat int_body_str_nat str_nat_not_Nil str_nat_hd_last
            nat_of_digits_str_nat str_nat_not_blank)
  qed
qed

section \<open>Splitting and lines\<close>

lemma py_split_not_Nil: "py_split sep s \<noteq> []"
  by (induction s) (auto split: list.splits)

lemma py_split_nosep: "sep \<notin> set a \<Longrightarrow> py_split sep a = [a]"
  by (induction a) auto

lemma py_split_append: "sep \<notin> set a \<Longrightarrow> py_split sep (a @ sep # r) = a # py_split sep r"
  by (induction a) (auto simp: py_split_not_Nil split: list.splits)

lemma lines_from_line:
  "list_all (\<lambda>c. c \<noteq> line_feed \<and> c \<noteq> carriage_return) body \<Longrightarrow>
     lines_from acc (body @ line_feed # rest) = (rev acc @ body @ [line_feed]) # lines_from [] rest"
  by (induction body arbitrary: acc) simp_all

lemma file_lines_concat:
  "list_all (\<lambda>l. \<exists>body. l = body @ [line_feed]
                \<and> list_all (\<lambda>c. c \<noteq> line_feed \<and> c \<noteq> carriage_return) body) ls \<Longrightarrow>
     file_lines (concat ls) = ls"
  unfolding file_lines_def
proof (induction ls)
  case Nil
  then show ?case by simp
next
  case (Cons l ls)
  then obtain body where "l = body @ [line_feed]"
    and "list_all (\<lambda>c. c \<noteq> line_feed \<and> c \<noteq> carriage_return) body"
    by auto
  with Cons show ?case
    by (simp add: lines_from_line)
qed

section \<open>A line written and read back\<close>

lemma bar_is_not_space: "\<not> is_space bar"
  by (simp add: is_space_def)

lemma newline_is_space: "is_space (line_feed)" "is_space (carriage_return)"
  by (simp_all add: is_space_def)

lemma sin_separadores_bar: "sin_separadores s \<Longrightarrow> bar \<notin> set s"
  by (auto simp: sin_separadores_def list_all_iff)

lemma sin_separadores_breaks:
  "sin_separadores s \<Longrightarrow> list_all (\<lambda>c. c \<noteq> line_feed \<and> c \<noteq> carriage_return) s"
  by (auto simp: sin_separadores_def list_all_iff)

lemma no_space_breaks:
  "list_all (\<lambda>c. c \<noteq> bar \<and> \<not> is_space c) s \<Longrightarrow>
     list_all (\<lambda>c. c \<noteq> line_feed \<and> c \<noteq> carriage_return) s"
  using newline_is_space by (auto simp: list_all_iff)

lemma no_space_bar:
  "list_all (\<lambda>c. c \<noteq> bar \<and> \<not> is_space c) s \<Longrightarrow> bar \<notin> set s"
  by (auto simp: list_all_iff)

text \<open>The line without its line break.\<close>

lemma linea_de_body:
  "linea_de L p =
     (id_producto p @ bar # nombre p @ bar # str_int (cantidad p)
        @ bar # float_str L (precio p)) @ [line_feed]"
  by (simp add: linea_de_def)

lemma py_strip_line_break:
  assumes "s \<noteq> []" and "\<not> is_space (hd s)" and "\<not> is_space (last s)"
  shows "py_strip (s @ [line_feed]) = s"
proof -
  from assms have "dropWhile is_space (s @ [line_feed]) = s @ [line_feed]"
    by (cases s) simp_all
  moreover from assms have "dropWhile is_space (rev s) = rev s"
    by (cases s rule: rev_cases) simp_all
  ultimately show ?thesis
    by (simp add: py_strip_def newline_is_space)
qed

lemma py_strip_linea:
  assumes "a = [] \<or> \<not> is_space (hd a)" and "list_all (\<lambda>c. c \<noteq> bar \<and> \<not> is_space c) d"
  shows "py_strip ((a @ bar # b @ bar # c @ bar # d) @ [line_feed])
           = a @ bar # b @ bar # c @ bar # d"
proof (rule py_strip_line_break)
  show "a @ bar # b @ bar # c @ bar # d \<noteq> []"
    by simp
  show "\<not> is_space (hd (a @ bar # b @ bar # c @ bar # d))"
    using assms(1) bar_is_not_space by (cases a) auto
  show "\<not> is_space (last (a @ bar # b @ bar # c @ bar # d))"
    using assms(2) bar_is_not_space by (cases d rule: rev_cases) auto
qed

lemma producto_de_linea_de:
  assumes "producto_guardable L k p"
  shows "producto_de_linea L (linea_de L p) = Return p"
proof -
  from assms have i: "sin_separadores (id_producto p)"
    and h: "id_producto p = [] \<or> \<not> is_space (hd (id_producto p))"
    and n: "sin_separadores (nombre p)"
    and f: "float_parse L (float_str L (precio p)) = Some (precio p)"
    and fc: "list_all (\<lambda>c. c \<noteq> bar \<and> \<not> is_space c) (float_str L (precio p))"
    by (simp_all add: producto_guardable_def float_texto_ok_def)
  have strip: "py_strip (linea_de L p)
      = id_producto p @ bar # nombre p @ bar # str_int (cantidad p)
          @ bar # float_str L (precio p)"
    unfolding linea_de_body using h fc by (rule py_strip_linea)
  have split: "py_split bar (py_strip (linea_de L p))
      = [id_producto p, nombre p, str_int (cantidad p), float_str L (precio p)]"
    unfolding strip
    using sin_separadores_bar[OF i] sin_separadores_bar[OF n]
      no_space_bar[OF str_int_chars[of "cantidad p"]] no_space_bar[OF fc]
    by (simp add: py_split_append py_split_nosep)
  show ?thesis
    by (simp add: producto_de_linea_def split int_parse_str_int f)
qed

lemma linea_de_shape:
  assumes "producto_guardable L k p"
  shows "\<exists>body. linea_de L p = body @ [line_feed]
           \<and> list_all (\<lambda>c. c \<noteq> line_feed \<and> c \<noteq> carriage_return) body"
proof -
  from assms have "sin_separadores (id_producto p)" and "sin_separadores (nombre p)"
    and "list_all (\<lambda>c. c \<noteq> bar \<and> \<not> is_space c) (float_str L (precio p))"
    by (simp_all add: producto_guardable_def float_texto_ok_def)
  then have "list_all (\<lambda>c. c \<noteq> line_feed \<and> c \<noteq> carriage_return)
      (id_producto p @ bar # nombre p @ bar # str_int (cantidad p)
          @ bar # float_str L (precio p))"
    using no_space_breaks[OF str_int_chars[of "cantidad p"]]
    by (simp add: sin_separadores_breaks no_space_breaks)
  then show ?thesis
    using linea_de_body[of L p] by blast
qed

section \<open>A store written and read back\<close>

lemma cargar_lineas_guardables:
  assumes "list_all (\<lambda>(k, p). producto_guardable L k p) d2" and "distinct (map fst (d1 @ d2))"
  shows "cargar_lineas L (map (linea_de L) (map snd d2)) d1 = (Return (), d1 @ d2)"
  using assms
proof (induction d2 arbitrary: d1)
  case Nil
  then show ?case by simp
next
  case (Cons kp d2)
  obtain k p where kp: "kp = (k, p)" by (cases kp)
  with Cons.prems have g: "producto_guardable L k p"
    and rest: "list_all (\<lambda>(k, p). producto_guardable L k p) d2"
    and fresh: "k \<notin> set (map fst d1)"
    and dist: "distinct (map fst ((d1 @ [(k, p)]) @ d2))"
    by auto
  from g have idk: "id_producto p = k"
    by (simp add: producto_guardable_def)
  from fresh have "dict_set k p d1 = d1 @ [(k, p)]"
    by (simp add: dict_set_notin dict_in_keys)
  with Cons.IH[OF rest dist] show ?case
    by (simp add: kp producto_de_linea_de[OF g] idk)
qed

lemma file_lines_texto:
  assumes "list_all (\<lambda>(k, p). producto_guardable L k p) (productos self)"
  shows "file_lines (texto L self) = map (linea_de L) (map snd (productos self))"
  unfolding texto_def dict_values_def
proof (rule file_lines_concat)
  show "list_all (\<lambda>l. \<exists>body. l = body @ [line_feed]
                \<and> list_all (\<lambda>c. c \<noteq> line_feed \<and> c \<noteq> carriage_return) body)
          (map (linea_de L) (map snd (productos self)))"
    using assms linea_de_shape[of L]
    by (fastforce simp: list_all_iff)
qed

lemma from_dict_to_dict: "from_dict (to_dict p) = Return p"
  by (simp add: from_dict_def to_dict_def subscript_def dict_get_def)

lemma productos_de_items_to_dict:
  assumes "distinct (map fst (d1 @ d2))"
  shows "productos_de_items (map (\<lambda>(k, v). (k, to_dict v)) d2) d1 = Return (d1 @ d2)"
  using assms
proof (induction d2 arbitrary: d1)
  case Nil
  then show ?case by simp
next
  case (Cons kp d2)
  obtain k p where kp: "kp = (k, p)" by (cases kp)
  with Cons.prems have fresh: "k \<notin> set (map fst d1)"
    and dist: "distinct (map fst ((d1 @ [(k, p)]) @ d2))"
    by auto
  from fresh have "dict_set k p d1 = d1 @ [(k, p)]"
    by (simp add: dict_set_notin dict_in_keys)
  with Cons.IH[OF dist] show ?case
    by (simp add: kp from_dict_to_dict)
qed

text \<open>
  C1, as amended: when no file operation fails, a store that is saved and loaded again
  comes back field for field. For the text file this holds for the stores whose keys are
  the ids of their products (each once), whose ids and names have no bar and no line
  break, whose ids do not begin with white space, and whose prices the interpreter
  prints and reads back; for the JSON file it holds for every store with distinct keys
  whose document the JSON library prints and reads back.
\<close>

theorem guardar_y_cargar:
  "(guardable L self \<and> guardar_sin_fallos self w \<and> fault w OpenR (archivo self) = None \<longrightarrow>
      fst (inventario_init L (archivo self) (snd (guardar_inventario L self w))) = Return self)
   \<and> (dict_ok (productos self)
      \<and> json_loads L (json_dumps L (documento self)) = Some (documento self)
      \<and> guardar1_sin_fallos self w \<and> fault w OpenR (archivo self) = None \<longrightarrow>
      fst (inventario_init1 L (archivo self) (snd (guardar_inventario1 L self w))) = Return self)"
proof (intro conjI impI)
  assume a: "guardable L self \<and> guardar_sin_fallos self w \<and> fault w OpenR (archivo self) = None"
  then have g: "list_all (\<lambda>(k, p). producto_guardable L k p) (productos self)"
    and d: "distinct (map fst ([] @ productos self))"
    by (simp_all add: guardable_def dict_ok_def)
  from a have s: "guardar_inventario L self w
      = (Return (), w\<lparr>files := (files w)(archivo self \<mapsto> texto L self)\<rparr>)"
    by (simp add: guardar_inventario_ok)
  have "cargar_lineas L (file_lines (texto L self)) [] = (Return (), productos self)"
    using cargar_lineas_guardables[OF g d] by (simp add: file_lines_texto[OF g])
  with a show "fst (inventario_init L (archivo self) (snd (guardar_inventario L self w))) = Return self"
    by (simp add: s inventario_init_def cargar_inventario_def os_path_exists_def open_r_def)
next
  assume a: "dict_ok (productos self)
      \<and> json_loads L (json_dumps L (documento self)) = Some (documento self)
      \<and> guardar1_sin_fallos self w \<and> fault w OpenR (archivo self) = None"
  then have d: "distinct (map fst ([] @ productos self))"
    by (simp add: dict_ok_def)
  from a have s: "guardar_inventario1 L self w
      = (Return (), w\<lparr>files := (files w)(temp_file self := None,
                              archivo self \<mapsto> json_dumps L (documento self))\<rparr>)"
    by (simp add: guardar_inventario1_ok)
  have "productos_de_items (map (\<lambda>(k, v). (k, to_dict v)) (productos self)) []
          = Return (productos self)"
    using productos_de_items_to_dict[OF d] by simp
  with a show "fst (inventario_init1 L (archivo self) (snd (guardar_inventario1 L self w))) = Return self"
    by (simp add: s inventario_init1_def cargar_inventario1_def cargar_inventario1_try_def
          os_path_exists_def open_r_def documento_def)
qed

lemmas evaluar_numeros =
  str_int_def str_nat.simps digit_char_def char_of_def bit_Suc_0_iff float_str_w_def

lemma world0_sin_fallos:
  "guardar_sin_fallos self world0" "guardar1_sin_fallos self world0"
  "fault world0 OpenR path = None"
  by (simp_all add: guardar_sin_fallos_def guardar1_sin_fallos_def world0_def)

lemma texto_con_barra: "texto (lib_w []) con_barra = (str ''B1|Tubo 1|2|4|3.0'') @ [line_feed]"
  by (simp add: texto_def con_barra_def dict_values_def linea_de_def lib_w_def evaluar_numeros)

lemma texto_con_salto:
  "texto (lib_w []) con_salto = (str ''B2|Tubo'') @ [line_feed] @ (str ''largo|4|3.0'') @ [line_feed]"
  by (simp add: texto_def con_salto_def dict_values_def linea_de_def lib_w_def evaluar_numeros)

lemma cargar_con_barra:
  "fst (cargar_lineas (lib_w []) (file_lines ((str ''B1|Tubo 1|2|4|3.0'') @ [line_feed])) []) = Raise ValueError"
  by (simp add: file_lines_def producto_de_linea_def py_strip_def is_space_def)

lemma cargar_con_salto:
  "fst (cargar_lineas (lib_w [])
          (file_lines ((str ''B2|Tubo'') @ [line_feed] @ (str ''largo|4|3.0'') @ [line_feed])) []) = Raise ValueError"
  by (simp add: file_lines_def producto_de_linea_def py_strip_def is_space_def)

lemma inventario_init_lineas:
  assumes "files w path = Some s" and "fault w OpenR path = None"
    and "fst (cargar_lineas L (file_lines s) []) = Raise ValueError"
  shows "fst (inventario_init L path w) = Raise ValueError"
  using assms
  by (cases "cargar_lineas L (file_lines s) []")
    (simp add: inventario_init_def cargar_inventario_def os_path_exists_def open_r_def)

text \<open>
  C1 as stated fails for the text file: a product whose name has a bar is written as a
  line of five fields, and one whose name has a line break as two lines; loading either
  file raises \<^verbatim>\<open>ValueError\<close>.
\<close>

theorem guardar_y_cargar_counterexample:
  "guardar_sin_fallos con_barra world0 \<and> fault world0 OpenR (archivo con_barra) = None
   \<and> files (snd (guardar_inventario (lib_w []) con_barra world0)) (archivo con_barra)
       = Some ((str ''B1|Tubo 1|2|4|3.0'') @ [line_feed])
   \<and> fst (inventario_init (lib_w []) (archivo con_barra)
            (snd (guardar_inventario (lib_w []) con_barra world0))) = Raise ValueError
   \<and> files (snd (guardar_inventario (lib_w []) con_salto world0)) (archivo con_salto)
       = Some ((str ''B2|Tubo'') @ [line_feed] @ (str ''largo|4|3.0'') @ [line_feed])
   \<and> fst (inventario_init (lib_w []) (archivo con_salto)
            (snd (guardar_inventario (lib_w []) con_salto world0))) = Raise ValueError"
proof -
  have a: "files (snd (guardar_inventario (lib_w []) con_barra world0)) (archivo con_barra)
       = Some ((str ''B1|Tubo 1|2|4|3.0'') @ [line_feed])"
    by (simp add: guardar_inventario_ok world0_sin_fallos texto_con_barra)
  have b: "files (snd (guardar_inventario (lib_w []) con_salto world0)) (archivo con_salto)
       = Some ((str ''B2|Tubo'') @ [line_feed] @ (str ''largo|4|3.0'') @ [line_feed])"
    by (simp add: guardar_inventario_ok world0_sin_fallos texto_con_salto)
  have f: "fault (snd (guardar_inventario (lib_w []) self world0)) OpenR path = None" for self path
    by (simp add: guardar_inventario_ok world0_sin_fallos)
  have c: "fst (inventario_init (lib_w []) (archivo con_barra)
            (snd (guardar_inventario (lib_w []) con_barra world0))) = Raise ValueError"
    using a f cargar_con_barra by (rule inventario_init_lineas)
  have d: "fst (inventario_init (lib_w []) (archivo con_salto)
            (snd (guardar_inventario (lib_w []) con_salto world0))) = Raise ValueError"
    using b f cargar_con_salto by (rule inventario_init_lineas)
  from a b c d show ?thesis
    by (simp add: world0_sin_fallos)
qed

text \<open>
  The blank at the beginning of an id is lost as well: \<^verbatim>\<open>strip\<close> takes it from the
  line, and the product comes back under another id.
\<close>

lemma guardar_y_cargar_espacio:
  "fst (inventario_init (lib_w []) (archivo con_espacio)
          (snd (guardar_inventario (lib_w []) con_espacio world0)))
     = Return \<lparr>productos = [(str ''P1'', \<lparr>id_producto = str ''P1'', nombre = str ''Tubo'', cantidad = 4, precio = 3\<rparr>)],
               archivo = str ''inventario.txt''\<rparr>"
proof -
  have t: "texto (lib_w []) con_espacio = (str '' P1|Tubo|4|3.0'') @ [line_feed]"
    by (simp add: texto_def con_espacio_def dict_values_def linea_de_def lib_w_def evaluar_numeros)
  have l: "cargar_lineas (lib_w []) (file_lines ((str '' P1|Tubo|4|3.0'') @ [line_feed])) []
      = (Return (), [(str ''P1'', \<lparr>id_producto = str ''P1'', nombre = str ''Tubo'', cantidad = 4, precio = 3\<rparr>)])"
    by (simp add: file_lines_def evaluar_texto)
  have a: "archivo con_espacio = str ''inventario.txt''"
    by (simp add: con_espacio_def)
  from l show ?thesis
    by (simp add: guardar_inventario_ok world0_sin_fallos t inventario_init_def
          cargar_inventario_def os_path_exists_def open_r_def a)
qed

lemma float_w_ok: "float_texto_ok (lib_w docs) n"
proof -
  have chars: "list_all (\<lambda>c. c \<noteq> bar \<and> \<not> is_space c) (str_int n @ str ''.0'')"
    using str_int_chars[of n] by (simp add: is_space_def)
  then have "py_strip (str_int n @ str ''.0'') = str_int n @ str ''.0''"
    by (intro py_strip_no_space) (simp add: list_all_iff)
  then have "float_parse_w (float_str_w n) = Some n"
    by (simp add: float_parse_w_def float_str_w_def suffix_def int_parse_str_int)
  with chars show ?thesis
    by (simp add: float_texto_ok_def lib_w_def float_str_w_def)
qed

lemma guardable_widget_a: "producto_guardable (lib_w docs) (str ''W1'') widget_a"
  using float_w_ok[of docs 2]
  by (simp add: producto_guardable_def sin_separadores_def widget_a_def is_space_def)

lemma guardable_gadget_b: "producto_guardable (lib_w docs) (str ''G1'') gadget_b"
  using float_w_ok[of docs 9]
  by (simp add: producto_guardable_def sin_separadores_def gadget_b_def is_space_def)

lemma guardable_widgets: "guardable (lib_w docs) widgets"
  using guardable_widget_a[of docs] guardable_gadget_b[of docs]
  by (simp add: guardable_def dict_ok_def widgets_def)

theorem guardar_y_cargar_witness:
  "guardable (lib_w [documento widgets1]) widgets
   \<and> guardar_sin_fallos widgets world0 \<and> fault world0 OpenR (archivo widgets) = None
   \<and> fst (inventario_init (lib_w [documento widgets1]) (archivo widgets)
            (snd (guardar_inventario (lib_w [documento widgets1]) widgets world0)))
       = Return widgets
   \<and> dict_ok (productos widgets1)
   \<and> json_loads (lib_w [documento widgets1])
        (json_dumps (lib_w [documento widgets1]) (documento widgets1)) = Some (documento widgets1)
   \<and> guardar1_sin_fallos widgets1 world0 \<and> fault world0 OpenR (archivo widgets1) = None
   \<and> fst (inventario_init1 (lib_w [documento widgets1]) (archivo widgets1)
            (snd (guardar_inventario1 (lib_w [documento widgets1]) widgets1 world0)))
       = Return widgets1"
proof -
  have a: "dict_ok (productos widgets1)"
    by (simp add: dict_ok_def widgets1_def)
  have b: "json_loads (lib_w [documento widgets1])
        (json_dumps (lib_w [documento widgets1]) (documento widgets1)) = Some (documento widgets1)"
    by (simp add: lib_w_def)
  from a b guardable_widgets[of "[documento widgets1]"]
    world0_sin_fallos(1)[of widgets] world0_sin_fallos(2)[of widgets1] world0_sin_fallos(3)
    guardar_y_cargar[of "lib_w [documento widgets1]" widgets world0]
    guardar_y_cargar[of "lib_w [documento widgets1]" widgets1 world0]
  show ?thesis by simp
qed

end
